theory Spec2Isabelle
  imports Complex_Main "HOL-Library.AList" "HOL-Library.Sublist" "HOL-Library.Log_Nat"
begin

section \<open>The OTP store of the backend server\<close>

text \<open>
  The server keeps the pending WhatsApp codes in a module-level \<^verbatim>\<open>Map\<close>:
  \<^verbatim>\<open>
  const otpStorage = new Map();
  const OTP_EXPIRY_MINUTES = 5;
  \<close>
  A JavaScript \<^verbatim>\<open>Map\<close> keeps its entries in insertion order, \<^verbatim>\<open>set\<close> on a key
  that is present replaces the value in place, \<^verbatim>\<open>set\<close> on a new key appends, and
  \<^verbatim>\<open>delete\<close> on a key that is absent changes nothing. The store is therefore an
  association list, written with \<open>AList.update\<close> and \<open>AList.delete\<close> and read with
  \<open>map_of\<close>. That every key occurs once is not built into the type: it is a property of
  the operations, proved below.

  Times are the integers \<^verbatim>\<open>Date.now()\<close> returns (milliseconds). Every call of
  \<^verbatim>\<open>Date.now()\<close> in the source is one argument of the model, so a function that reads
  the clock twice takes two readings.
\<close>

record otp_record =
  otp :: string
  createdAt :: int
  expiresAt :: int

type_synonym otp_store = "(string \<times> otp_record) list"

definition OTP_EXPIRY_MINUTES :: int where
  "OTP_EXPIRY_MINUTES = 5"

text \<open>
  \<^verbatim>\<open>
  const storeOTP = (phoneNumber, otp) => {
      otpStorage.set(phoneNumber, {
          otp: otp,
          createdAt: Date.now(),
          expiresAt: Date.now() + (OTP_EXPIRY_MINUTES * 60 * 1000)
      });
  };
  \<close>
  The object literal calls \<^verbatim>\<open>Date.now()\<close> once for \<^verbatim>\<open>createdAt\<close> and once more for
  \<^verbatim>\<open>expiresAt\<close>: \<open>now1\<close> and \<open>now2\<close> are these two readings, in this order.
\<close>

definition storeOTP :: "int \<Rightarrow> int \<Rightarrow> string \<Rightarrow> string \<Rightarrow> otp_store \<Rightarrow> otp_store" where
  "storeOTP now1 now2 phoneNumber code store =
     AList.update phoneNumber
       \<lparr>otp = code, createdAt = now1, expiresAt = now2 + OTP_EXPIRY_MINUTES * 60 * 1000\<rparr>
       store"

text \<open>
  \<^verbatim>\<open>
  const verifyStoredOTP = (phoneNumber, otp) => {
      const stored = otpStorage.get(phoneNumber);
      if (!stored) {
          return { valid: false, message: 'No OTP was sent to this number. Please request OTP first.' };
      }
      if (Date.now() > stored.expiresAt) {
          otpStorage.delete(phoneNumber);
          return { valid: false, message: 'OTP has expired. Please request a new OTP.' };
      }
      if (stored.otp !== otp) {
          return { valid: false, message: 'Invalid OTP. Please check and try again.' };
      }
      otpStorage.delete(phoneNumber);
      return { valid: true, message: 'OTP verified successfully!' };
  };
  \<close>
  The result is the returned object together with the store after the call.
\<close>

record verify_result =
  valid :: bool
  message :: string

definition verifyStoredOTP ::
    "int \<Rightarrow> string \<Rightarrow> string \<Rightarrow> otp_store \<Rightarrow> verify_result \<times> otp_store" where
  "verifyStoredOTP now phoneNumber code store =
     (case map_of store phoneNumber of
        None \<Rightarrow>
          (\<lparr>valid = False,
            message = ''No OTP was sent to this number. Please request OTP first.''\<rparr>, store)
      | Some stored \<Rightarrow>
          if now > expiresAt stored then
            (\<lparr>valid = False, message = ''OTP has expired. Please request a new OTP.''\<rparr>,
             AList.delete phoneNumber store)
          else if otp stored \<noteq> code then
            (\<lparr>valid = False, message = ''Invalid OTP. Please check and try again.''\<rparr>, store)
          else
            (\<lparr>valid = True, message = ''OTP verified successfully!''\<rparr>,
             AList.delete phoneNumber store))"

text \<open>The four outcomes of \<open>verifyStoredOTP\<close>, named as the specification names them.\<close>

abbreviation NotFound :: verify_result where
  "NotFound \<equiv> \<lparr>valid = False,
     message = ''No OTP was sent to this number. Please request OTP first.''\<rparr>"

abbreviation Expired :: verify_result where
  "Expired \<equiv> \<lparr>valid = False, message = ''OTP has expired. Please request a new OTP.''\<rparr>"

abbreviation Mismatch :: verify_result where
  "Mismatch \<equiv> \<lparr>valid = False, message = ''Invalid OTP. Please check and try again.''\<rparr>"

abbreviation Verified :: verify_result where
  "Verified \<equiv> \<lparr>valid = True, message = ''OTP verified successfully!''\<rparr>"

text \<open>
  \<^verbatim>\<open>
  setInterval(() => {
      const now = Date.now();
      for (const [phone, data] of otpStorage.entries()) {
          if (now > data.expiresAt) {
              otpStorage.delete(phone);
          }
      }
  }, 5 * 60 * 1000);
  \<close>
  One run of the timer's callback. The loop walks the entries in order and deletes from the
  map it walks; the only key a step deletes is the key of the entry it is at, so the walk is
  over the entries as they were when the loop began (\<open>entries\<close>) while the deletions act on
  the live store.
\<close>

fun sweep_loop :: "int \<Rightarrow> (string \<times> otp_record) list \<Rightarrow> otp_store \<Rightarrow> otp_store" where
  "sweep_loop now [] store = store"
| "sweep_loop now ((phone, data) # entries) store =
     sweep_loop now entries
       (if now > expiresAt data then AList.delete phone store else store)"

definition sweep :: "int \<Rightarrow> otp_store \<Rightarrow> otp_store" where
  "sweep now store = sweep_loop now store store"

text \<open>The phones that have an entry in \<open>entries\<close> whose \<open>expiresAt\<close> the clock has passed.\<close>

definition expired_keys :: "int \<Rightarrow> (string \<times> otp_record) list \<Rightarrow> string set" where
  "expired_keys now entries = {phone. \<exists>data. (phone, data) \<in> set entries \<and> now > expiresAt data}"

text \<open>
  The operations that touch the store: the two functions above, the timer's callback, and
  the bare \<^verbatim>\<open>otpStorage.delete(formattedPhone)\<close> with which the send handlers take back
  a record. \<open>run_ops\<close> applies a sequence of them, oldest first.
\<close>

datatype store_op =
    Store int int string string
  | Verify int string string
  | Sweep int
  | Rollback string

fun apply_op :: "store_op \<Rightarrow> otp_store \<Rightarrow> otp_store" where
  "apply_op (Store now1 now2 phoneNumber code) store = storeOTP now1 now2 phoneNumber code store"
| "apply_op (Verify now phoneNumber code) store = snd (verifyStoredOTP now phoneNumber code store)"
| "apply_op (Sweep now) store = sweep now store"
| "apply_op (Rollback phoneNumber) store = AList.delete phoneNumber store"

fun run_ops :: "store_op list \<Rightarrow> otp_store \<Rightarrow> otp_store" where
  "run_ops [] store = store"
| "run_ops (op # ops) store = run_ops ops (apply_op op store)"

text \<open>The records a \<open>Store\<close> operation of the sequence writes, by phone.\<close>

fun written :: "store_op \<Rightarrow> (string \<times> otp_record) set" where
  "written (Store now1 now2 phoneNumber code) =
     {(phoneNumber, \<lparr>otp = code, createdAt = now1, expiresAt = now2 + 5 * 60 * 1000\<rparr>)}"
| "written _ = {}"

section \<open>Generating a code\<close>

text \<open>
  \<^verbatim>\<open>
  const generateOTP = () => {
      return Math.floor(1000 + Math.random() * 9000).toString();
  };
  \<close>
  JavaScript numbers are IEEE 754 binary64 values, and \<^verbatim>\<open>*\<close> and \<^verbatim>\<open>+\<close> round their exact
  result to the nearest such value, ties to the even significand. A number is modelled by
  the real it denotes, and each operation by the exact operation followed by \<open>fl_round\<close>.
  Infinities and NaN are left out: every value met here is below \<open>2 ^ 14\<close>.

  \<open>rne\<close> rounds a real to the nearest integer, ties to even. \<open>ilog2 x\<close> is the binary
  exponent of a positive \<open>x\<close>, the \<open>e\<close> with \<open>2 ^ e \<le> x < 2 ^ (e + 1)\<close>; \<open>ulp x\<close> is the spacing
  of the binary64 values around \<open>x\<close> (53 significant bits, subnormal below \<open>2 ^ - 1022\<close>).
\<close>

definition rne :: "real \<Rightarrow> int" where
  "rne q = (let f = \<lfloor>q\<rfloor>; d = q - of_int f in
     if d < 1 / 2 then f else if d > 1 / 2 then f + 1 else if even f then f else f + 1)"

definition ilog2 :: "real \<Rightarrow> int" where
  "ilog2 x = (if 1 \<le> x then int (floorlog 2 (nat \<lfloor>x\<rfloor>)) - 1
              else - int (floorlog 2 (nat (\<lceil>1 / x\<rceil> - 1))))"

definition ulp :: "real \<Rightarrow> real" where
  "ulp x = 2 powi (max (ilog2 \<bar>x\<bar>) (- 1022) - 52)"

definition fl_round :: "real \<Rightarrow> real" where
  "fl_round x = (if x = 0 then 0 else of_int (rne (x / ulp x)) * ulp x)"

text \<open>The reals that are binary64 values: those that rounding leaves as they are.\<close>

definition is_double :: "real \<Rightarrow> bool" where
  "is_double x \<longleftrightarrow> fl_round x = x \<and> \<bar>x\<bar> < 2 ^ 1024"

text \<open>
  \<^verbatim>\<open>Number.prototype.toString\<close> on an integer below \<open>10 ^ 21\<close> writes its decimal digits,
  most significant first, after a minus sign if it is negative.
\<close>

definition digit_char :: "nat \<Rightarrow> char" where
  "digit_char d = ''0123456789'' ! d"

fun digits :: "nat \<Rightarrow> string" where
  "digits n = (if n < 10 then [digit_char n] else digits (n div 10) @ [digit_char (n mod 10)])"

declare digits.simps [simp del]

definition toString :: "int \<Rightarrow> string" where
  "toString i = (if i < 0 then CHR ''-'' # digits (nat (- i)) else digits (nat i))"

text \<open>
  \<open>generateOTP r\<close> is the code the function returns when \<^verbatim>\<open>Math.random()\<close> returns \<open>r\<close>,
  a binary64 value with \<open>0 \<le> r < 1\<close>.
\<close>

definition generateOTP :: "real \<Rightarrow> string" where
  "generateOTP r = toString \<lfloor>fl_round (1000 + fl_round (r * 9000))\<rfloor>"

text \<open>The number a string of decimal digits denotes, to state what a code's value is.\<close>

definition digit_value :: "char \<Rightarrow> nat" where
  "digit_value c = of_char c - 48"

definition decimal_value :: "string \<Rightarrow> nat" where
  "decimal_value s = foldl (\<lambda>acc c. 10 * acc + digit_value c) 0 s"

section \<open>Phone numbers and request fields\<close>

text \<open>
  A string is the list of its UTF-16 code units; the model covers the strings whose code
  units are below 256, one \<open>char\<close> each. Of these the regular expression class \<^verbatim>\<open>\s\<close>
  matches tab, line feed, vertical tab, form feed, carriage return, space and the
  no-break space.
  \<^verbatim>\<open>
  const validatePhoneNumber = (phoneNumber) => {
      const cleanNumber = phoneNumber.replace(/[\s\-\(\)]/g, '');
      const phoneRegex = /^[6-9]\d{9}$/;
      return phoneRegex.test(cleanNumber);
  };
  const formatPhoneNumber = (phoneNumber) => {
      const cleanNumber = phoneNumber.replace(/[\s\-\(\)]/g, '');
      if (cleanNumber.startsWith('+91')) {
          return cleanNumber.substring(3);
      } else if (cleanNumber.startsWith('91') && cleanNumber.length > 10) {
          return cleanNumber.substring(2);
      }
      return cleanNumber;
  };
  \<close>
\<close>

definition is_space :: "char \<Rightarrow> bool" where
  "is_space c \<longleftrightarrow> of_char c \<in> {9, 10, 11, 12, 13, 32, 160 :: nat}"

definition is_digit :: "char \<Rightarrow> bool" where
  "is_digit c \<longleftrightarrow> c \<in> set ''0123456789''"

definition clean_number :: "string \<Rightarrow> string" where
  "clean_number phoneNumber =
     filter (\<lambda>c. \<not> (is_space c \<or> c = CHR ''-'' \<or> c = CHR ''('' \<or> c = CHR '')'')) phoneNumber"

definition validatePhoneNumber :: "string \<Rightarrow> bool" where
  "validatePhoneNumber phoneNumber =
     (case clean_number phoneNumber of
        [] \<Rightarrow> False
      | c # cs \<Rightarrow> c \<in> set ''6789'' \<and> length cs = 9 \<and> list_all is_digit cs)"

definition formatPhoneNumber :: "string \<Rightarrow> string" where
  "formatPhoneNumber phoneNumber =
     (let cleanNumber = clean_number phoneNumber in
      if prefix ''+91'' cleanNumber then drop 3 cleanNumber
      else if prefix ''91'' cleanNumber \<and> length cleanNumber > 10 then drop 2 cleanNumber
      else cleanNumber)"

text \<open>
  The two tests on the code a verify request carries: \<^verbatim>\<open>/^\d{4,6}$/\<close> in the SMS and
  WhatsApp handlers, \<^verbatim>\<open>/^\d{4}$/\<close> in the Meta WhatsApp handler.
\<close>

definition otpRegex :: "string \<Rightarrow> bool" where
  "otpRegex code \<longleftrightarrow> list_all is_digit code \<and> 4 \<le> length code \<and> length code \<le> 6"

definition otpRegex4 :: "string \<Rightarrow> bool" where
  "otpRegex4 code \<longleftrightarrow> list_all is_digit code \<and> length code = 4"

text \<open>\<^verbatim>\<open>s.includes(t)\<close>: \<open>t\<close> occurs in \<open>s\<close> as a contiguous part.\<close>

definition str_includes :: "string \<Rightarrow> string \<Rightarrow> bool" where
  "str_includes s t \<longleftrightarrow> sublist t s"

text \<open>
  A field of \<^verbatim>\<open>req.body\<close>, or of a provider's reply, is absent (\<open>None\<close>) or a string.
  \<open>truthy\<close> is what JavaScript's \<^verbatim>\<open>!v\<close> tests: an absent field and the empty string are
  falsy. \<open>or_else v d\<close> is \<^verbatim>\<open>v || d\<close>.
\<close>

definition truthy :: "string option \<Rightarrow> string option" where
  "truthy v = (case v of None \<Rightarrow> None | Some s \<Rightarrow> if s = [] then None else Some s)"

definition or_else :: "string option \<Rightarrow> string \<Rightarrow> string" where
  "or_else v d = (case truthy v of None \<Rightarrow> d | Some s \<Rightarrow> s)"

record request_body =
  body_phoneNumber :: "string option"
  body_otp :: "string option"

text \<open>
  What a handler sends back: the HTTP status and the fields of the JSON object
  (\<^verbatim>\<open>res.json\<close> without \<^verbatim>\<open>res.status\<close> is status 200).
\<close>

record response =
  res_status :: nat
  res_success :: bool
  res_verified :: "bool option"
  res_message :: string
  res_phoneNumber :: "string option"

section \<open>The providers\<close>

text \<open>
  An \<^verbatim>\<open>await axios.get(...)\<close> or \<^verbatim>\<open>axios.post(...)\<close> either yields a response with a
  status and a body, or throws: with \<^verbatim>\<open>error.response\<close> set (a status and a body), with
  only \<^verbatim>\<open>error.request\<close> set, or with neither.
\<close>

datatype 'd axios_result =
    Resolved nat 'd
  | HttpError nat 'd
  | NoResponse
  | OtherError

text \<open>
  Of a body the model keeps what the handlers read. For 2Factor these are the fields
  \<^verbatim>\<open>Status\<close> and \<^verbatim>\<open>Details\<close>; the body itself is \<open>None\<close> when it is \<^verbatim>\<open>null\<close>, where
  \<^verbatim>\<open>response.data.Status\<close> throws a \<^verbatim>\<open>TypeError\<close> that the handler's own \<^verbatim>\<open>catch\<close> receives
  and \<^verbatim>\<open>error.response.data?.Details\<close> is undefined. For the WhatsApp provider they are
  whether \<^verbatim>\<open>data.success\<close> is truthy and the field \<^verbatim>\<open>message\<close>; for the Meta provider the
  \<^verbatim>\<open>message_status\<close> of each element of the array \<^verbatim>\<open>messages\<close>, and \<^verbatim>\<open>message\<close>. For these
  two the body is \<open>None\<close> when it is falsy.
\<close>

record tf_data =
  Status :: "string option"
  Details :: "string option"

record wa_data =
  wa_success :: bool
  wa_message :: "string option"

record meta_data =
  meta_messages :: "string option list option"
  meta_message :: "string option"

text \<open>
  \<^verbatim>\<open>response.data && response.data.messages &&
  response.data.messages[0]?.message_status === 'accepted'\<close>
\<close>

definition meta_accepted :: "meta_data option \<Rightarrow> bool" where
  "meta_accepted data =
     (case data of
        None \<Rightarrow> False
      | Some d \<Rightarrow>
          (case meta_messages d of
             None \<Rightarrow> False
           | Some [] \<Rightarrow> False
           | Some (m # ms) \<Rightarrow> m = Some ''accepted''))"

text \<open>
  Everything outside the store that a request reads: the value of \<^verbatim>\<open>Math.random()\<close>, the
  first and the second reading of \<^verbatim>\<open>Date.now()\<close>, and what each provider answers to the
  call a handler makes. The 2Factor calls are determined by the phone (send) and by the
  phone and the code in the URL (verify); the WhatsApp calls by the receiver and the code.
\<close>

record env =
  random :: real
  clock1 :: int
  clock2 :: int
  sms_send_api :: "string \<Rightarrow> tf_data option axios_result"
  sms_verify_api :: "string \<Rightarrow> string \<Rightarrow> tf_data option axios_result"
  whatsapp_api :: "string \<Rightarrow> string \<Rightarrow> wa_data option axios_result"
  meta_api :: "string \<Rightarrow> string \<Rightarrow> meta_data option axios_result"

definition reply :: "nat \<Rightarrow> bool \<Rightarrow> string \<Rightarrow> response" where
  "reply st ok msg =
     \<lparr>res_status = st, res_success = ok, res_verified = None, res_message = msg,
      res_phoneNumber = None\<rparr>"

definition reply_verify :: "nat \<Rightarrow> bool \<Rightarrow> string \<Rightarrow> response" where
  "reply_verify st ok msg =
     \<lparr>res_status = st, res_success = ok, res_verified = Some ok, res_message = msg,
      res_phoneNumber = None\<rparr>"

definition details_of :: "tf_data option \<Rightarrow> string option" where
  "details_of data = (case data of None \<Rightarrow> None | Some d \<Rightarrow> Details d)"

definition wa_message_of :: "wa_data option \<Rightarrow> string option" where
  "wa_message_of data = (case data of None \<Rightarrow> None | Some d \<Rightarrow> wa_message d)"

definition meta_message_of :: "meta_data option \<Rightarrow> string option" where
  "meta_message_of data = (case data of None \<Rightarrow> None | Some d \<Rightarrow> meta_message d)"

section \<open>The SMS handlers (2Factor holds the code)\<close>

text \<open>
  \<^verbatim>\<open>app.post('/api/send-otp', ...)\<close>. The handler never touches \<^verbatim>\<open>otpStorage\<close>.
\<close>

definition sms_send_otp :: "env \<Rightarrow> request_body \<Rightarrow> otp_store \<Rightarrow> response \<times> otp_store" where
  "sms_send_otp e body store =
     (case truthy (body_phoneNumber body) of
        None \<Rightarrow> (reply 400 False ''Phone number is required'', store)
      | Some phoneNumber \<Rightarrow>
          let formattedPhone = formatPhoneNumber phoneNumber in
          if \<not> validatePhoneNumber formattedPhone then
            (reply 400 False
               ''Invalid phone number. Please enter a valid 10-digit Indian mobile number.'',
             store)
          else
            (case sms_send_api e formattedPhone of
               Resolved st None \<Rightarrow>
                 (reply 500 False ''Internal server error. Please try again later.'', store)
             | Resolved st (Some d) \<Rightarrow>
                 if Status d = Some ''Success'' then
                   ((reply 200 True ''OTP sent successfully! Please check your phone.'')
                      \<lparr>res_phoneNumber := Some formattedPhone\<rparr>, store)
                 else
                   (reply 400 False
                      (or_else (Details d) ''Failed to send OTP. Please try again.''), store)
             | HttpError st data \<Rightarrow>
                 (reply st False
                    (or_else (details_of data) ''Failed to send OTP. Please try again.''), store)
             | NoResponse \<Rightarrow>
                 (reply 503 False ''Unable to connect to SMS service. Please try again later.'',
                  store)
             | OtherError \<Rightarrow>
                 (reply 500 False ''Internal server error. Please try again later.'', store)))"

text \<open>
  \<^verbatim>\<open>app.post('/api/verify-otp', ...)\<close>. \<open>sms_verify_reply\<close> is the part after
  \<^verbatim>\<open>await axios.get(verifyUrl)\<close>: the \<^verbatim>\<open>if\<close> on the response and the \<^verbatim>\<open>catch\<close> block.
\<close>

definition sms_verify_reply :: "string \<Rightarrow> tf_data option axios_result \<Rightarrow> response" where
  "sms_verify_reply formattedPhone result =
     (case result of
        Resolved st None \<Rightarrow>
          reply_verify 500 False ''Internal server error. Please try again later.''
      | Resolved st (Some d) \<Rightarrow>
          if Status d = Some ''Success'' \<and> Details d = Some ''OTP Matched'' then
            (reply_verify 200 True ''OTP verified successfully! Logging you in...'')
              \<lparr>res_phoneNumber := Some formattedPhone\<rparr>
          else reply_verify 400 False ''Invalid OTP. Please check and try again.''
      | HttpError st data \<Rightarrow>
          let errorDetails = or_else (details_of data) [] in
          if str_includes errorDetails ''OTP Mismatch''
             \<or> str_includes errorDetails ''OTP not matched'' then
            reply_verify 400 False ''Invalid OTP. Please check and try again.''
          else if str_includes errorDetails ''OTP Expired'' then
            reply_verify 400 False ''OTP has expired. Please request a new OTP.''
          else if str_includes errorDetails ''No OTP request'' then
            reply_verify 400 False ''No OTP was sent to this number. Please request OTP first.''
          else
            reply_verify st False
              (or_else (Some errorDetails) ''OTP verification failed. Please try again.'')
      | NoResponse \<Rightarrow>
          reply_verify 503 False
            ''Unable to connect to verification service. Please try again later.''
      | OtherError \<Rightarrow>
          reply_verify 500 False ''Internal server error. Please try again later.'')"

definition sms_verify_otp :: "env \<Rightarrow> request_body \<Rightarrow> otp_store \<Rightarrow> response \<times> otp_store" where
  "sms_verify_otp e body store =
     (case (truthy (body_phoneNumber body), truthy (body_otp body)) of
        (Some phoneNumber, Some code) \<Rightarrow>
          let formattedPhone = formatPhoneNumber phoneNumber in
          if \<not> otpRegex code then
            (reply_verify 400 False ''Invalid OTP format. Please enter a valid OTP.'', store)
          else
            (sms_verify_reply formattedPhone (sms_verify_api e formattedPhone code), store)
      | _ \<Rightarrow> (reply_verify 400 False ''Phone number and OTP are required'', store))"

text \<open>
  \<^verbatim>\<open>app.post('/api/resend-otp', ...)\<close>: as the send handler, with one message for every
  thrown error.
\<close>

definition sms_resend_otp :: "env \<Rightarrow> request_body \<Rightarrow> otp_store \<Rightarrow> response \<times> otp_store" where
  "sms_resend_otp e body store =
     (case truthy (body_phoneNumber body) of
        None \<Rightarrow> (reply 400 False ''Phone number is required'', store)
      | Some phoneNumber \<Rightarrow>
          let formattedPhone = formatPhoneNumber phoneNumber in
          if \<not> validatePhoneNumber formattedPhone then
            (reply 400 False ''Invalid phone number.'', store)
          else
            (case sms_send_api e formattedPhone of
               Resolved st (Some d) \<Rightarrow>
                 if Status d = Some ''Success'' then
                   ((reply 200 True ''New OTP sent successfully!'')
                      \<lparr>res_phoneNumber := Some formattedPhone\<rparr>, store)
                 else
                   (reply 400 False
                      (or_else (Details d) ''Failed to resend OTP. Please try again.''), store)
             | _ \<Rightarrow>
                 (reply 500 False ''Failed to resend OTP. Please try again later.'', store)))"

section \<open>The WhatsApp handlers (the server holds the code)\<close>

text \<open>
  \<^verbatim>\<open>app.post('/api/whatsapp/send-otp', ...)\<close>. The record is stored before the provider is
  called. The \<^verbatim>\<open>else\<close> branch deletes it under \<^verbatim>\<open>formattedPhone\<close>; the \<^verbatim>\<open>catch\<close> block
  computes \<^verbatim>\<open>formatPhoneNumber(req.body.phoneNumber || '')\<close> again and deletes under that.
\<close>

definition whatsapp_send_otp ::
    "env \<Rightarrow> request_body \<Rightarrow> otp_store \<Rightarrow> response \<times> otp_store" where
  "whatsapp_send_otp e body store =
     (case truthy (body_phoneNumber body) of
        None \<Rightarrow> (reply 400 False ''Phone number is required'', store)
      | Some phoneNumber \<Rightarrow>
          let formattedPhone = formatPhoneNumber phoneNumber in
          if \<not> validatePhoneNumber formattedPhone then
            (reply 400 False
               ''Invalid phone number. Please enter a valid 10-digit Indian mobile number.'',
             store)
          else
            let code = generateOTP (random e);
                stored = storeOTP (clock1 e) (clock2 e) formattedPhone code store;
                catchPhone = formatPhoneNumber (or_else (body_phoneNumber body) [])
            in
            (case whatsapp_api e (''+91'' @ formattedPhone) code of
               Resolved st data \<Rightarrow>
                 if (case data of None \<Rightarrow> False | Some d \<Rightarrow> wa_success d \<or> st = 200) then
                   ((reply 200 True
                       ''OTP sent successfully via WhatsApp! Please check your WhatsApp.'')
                      \<lparr>res_phoneNumber := Some formattedPhone\<rparr>, stored)
                 else
                   (reply 400 False
                      (or_else (wa_message_of data)
                         ''Failed to send WhatsApp OTP. Please try again.''),
                    AList.delete formattedPhone stored)
             | HttpError st data \<Rightarrow>
                 (reply st False (or_else (wa_message_of data) ''Failed to send WhatsApp OTP.''),
                  AList.delete catchPhone stored)
             | NoResponse \<Rightarrow>
                 (reply 500 False ''Failed to send WhatsApp OTP. Please try again later.'',
                  AList.delete catchPhone stored)
             | OtherError \<Rightarrow>
                 (reply 500 False ''Failed to send WhatsApp OTP. Please try again later.'',
                  AList.delete catchPhone stored)))"

text \<open>
  The part the two WhatsApp verify handlers share after \<^verbatim>\<open>verifyStoredOTP\<close> has returned.
\<close>

definition stored_verify_reply :: "string \<Rightarrow> verify_result \<Rightarrow> response" where
  "stored_verify_reply formattedPhone verificationResult =
     (if valid verificationResult then
        (reply_verify 200 True ''OTP verified successfully! Logging you in...'')
          \<lparr>res_phoneNumber := Some formattedPhone\<rparr>
      else reply_verify 400 False (message verificationResult))"

text \<open>\<^verbatim>\<open>app.post('/api/whatsapp/verify-otp', ...)\<close>\<close>

definition whatsapp_verify_otp ::
    "env \<Rightarrow> request_body \<Rightarrow> otp_store \<Rightarrow> response \<times> otp_store" where
  "whatsapp_verify_otp e body store =
     (case (truthy (body_phoneNumber body), truthy (body_otp body)) of
        (Some phoneNumber, Some code) \<Rightarrow>
          let formattedPhone = formatPhoneNumber phoneNumber in
          if \<not> otpRegex code then
            (reply_verify 400 False ''Invalid OTP format. Please enter a valid OTP.'', store)
          else
            let (verificationResult, store') =
                  verifyStoredOTP (clock1 e) formattedPhone code store
            in (stored_verify_reply formattedPhone verificationResult, store')
      | _ \<Rightarrow> (reply_verify 400 False ''Phone number and OTP are required'', store))"

text \<open>
  \<^verbatim>\<open>app.post('/api/whatsapp/resend-otp', ...)\<close>. The \<^verbatim>\<open>else\<close> branch deletes the record;
  the \<^verbatim>\<open>catch\<close> block only answers.
\<close>

definition whatsapp_resend_otp ::
    "env \<Rightarrow> request_body \<Rightarrow> otp_store \<Rightarrow> response \<times> otp_store" where
  "whatsapp_resend_otp e body store =
     (case truthy (body_phoneNumber body) of
        None \<Rightarrow> (reply 400 False ''Phone number is required'', store)
      | Some phoneNumber \<Rightarrow>
          let formattedPhone = formatPhoneNumber phoneNumber in
          if \<not> validatePhoneNumber formattedPhone then
            (reply 400 False ''Invalid phone number.'', store)
          else
            let code = generateOTP (random e);
                stored = storeOTP (clock1 e) (clock2 e) formattedPhone code store
            in
            (case whatsapp_api e (''+91'' @ formattedPhone) code of
               Resolved st data \<Rightarrow>
                 if (case data of None \<Rightarrow> False | Some d \<Rightarrow> wa_success d \<or> st = 200) then
                   ((reply 200 True ''New OTP sent via WhatsApp!'')
                      \<lparr>res_phoneNumber := Some formattedPhone\<rparr>, stored)
                 else
                   (reply 400 False ''Failed to resend WhatsApp OTP.'',
                    AList.delete formattedPhone stored)
             | _ \<Rightarrow> (reply 500 False ''Failed to resend WhatsApp OTP.'', stored)))"

text \<open>\<^verbatim>\<open>app.post('/api/whatsapp-meta/send-otp', ...)\<close>\<close>

definition meta_send_otp :: "env \<Rightarrow> request_body \<Rightarrow> otp_store \<Rightarrow> response \<times> otp_store" where
  "meta_send_otp e body store =
     (case truthy (body_phoneNumber body) of
        None \<Rightarrow> (reply 400 False ''Phone number is required'', store)
      | Some phoneNumber \<Rightarrow>
          let formattedPhone = formatPhoneNumber phoneNumber in
          if \<not> validatePhoneNumber formattedPhone then
            (reply 400 False
               ''Invalid phone number. Please enter a valid 10-digit Indian mobile number.'',
             store)
          else
            let code = generateOTP (random e);
                stored = storeOTP (clock1 e) (clock2 e) formattedPhone code store;
                catchPhone = formatPhoneNumber (or_else (body_phoneNumber body) [])
            in
            (case meta_api e formattedPhone code of
               Resolved st data \<Rightarrow>
                 if meta_accepted data then
                   ((reply 200 True
                       ''OTP sent successfully via WhatsApp! Please check your WhatsApp.'')
                      \<lparr>res_phoneNumber := Some formattedPhone\<rparr>, stored)
                 else if st = 200 then
                   ((reply 200 True
                       ''OTP sent successfully via WhatsApp! Please check your WhatsApp.'')
                      \<lparr>res_phoneNumber := Some formattedPhone\<rparr>, stored)
                 else
                   (reply 400 False
                      (or_else (meta_message_of data)
                         ''Failed to send WhatsApp OTP. Please try again.''),
                    AList.delete formattedPhone stored)
             | HttpError st data \<Rightarrow>
                 (reply st False
                    (or_else (meta_message_of data) ''Failed to send WhatsApp OTP.''),
                  AList.delete catchPhone stored)
             | NoResponse \<Rightarrow>
                 (reply 500 False ''Failed to send WhatsApp OTP. Please try again later.'',
                  AList.delete catchPhone stored)
             | OtherError \<Rightarrow>
                 (reply 500 False ''Failed to send WhatsApp OTP. Please try again later.'',
                  AList.delete catchPhone stored)))"

text \<open>\<^verbatim>\<open>app.post('/api/whatsapp-meta/verify-otp', ...)\<close>\<close>

definition meta_verify_otp :: "env \<Rightarrow> request_body \<Rightarrow> otp_store \<Rightarrow> response \<times> otp_store" where
  "meta_verify_otp e body store =
     (case (truthy (body_phoneNumber body), truthy (body_otp body)) of
        (Some phoneNumber, Some code) \<Rightarrow>
          let formattedPhone = formatPhoneNumber phoneNumber in
          if \<not> otpRegex4 code then
            (reply_verify 400 False ''Invalid OTP format. Please enter a valid 4-digit OTP.'',
             store)
          else
            let (verificationResult, store') =
                  verifyStoredOTP (clock1 e) formattedPhone code store
            in (stored_verify_reply formattedPhone verificationResult, store')
      | _ \<Rightarrow> (reply_verify 400 False ''Phone number and OTP are required'', store))"

text \<open>\<^verbatim>\<open>app.post('/api/whatsapp-meta/resend-otp', ...)\<close>\<close>

definition meta_resend_otp :: "env \<Rightarrow> request_body \<Rightarrow> otp_store \<Rightarrow> response \<times> otp_store" where
  "meta_resend_otp e body store =
     (case truthy (body_phoneNumber body) of
        None \<Rightarrow> (reply 400 False ''Phone number is required'', store)
      | Some phoneNumber \<Rightarrow>
          let formattedPhone = formatPhoneNumber phoneNumber in
          if \<not> validatePhoneNumber formattedPhone then
            (reply 400 False ''Invalid phone number.'', store)
          else
            let code = generateOTP (random e);
                stored = storeOTP (clock1 e) (clock2 e) formattedPhone code store
            in
            (case meta_api e formattedPhone code of
               Resolved st data \<Rightarrow>
                 if st = 200 then
                   ((reply 200 True ''New OTP sent via WhatsApp!'')
                      \<lparr>res_phoneNumber := Some formattedPhone\<rparr>, stored)
                 else
                   (reply 400 False ''Failed to resend WhatsApp OTP.'',
                    AList.delete formattedPhone stored)
             | _ \<Rightarrow> (reply 500 False ''Failed to resend WhatsApp OTP.'', stored)))"

section \<open>The routes\<close>

text \<open>The nine \<^verbatim>\<open>app.post\<close> routes, and the handler each one runs.\<close>

datatype route =
    Sms_Send | Sms_Verify | Sms_Resend
  | Whatsapp_Send | Whatsapp_Verify | Whatsapp_Resend
  | Meta_Send | Meta_Verify | Meta_Resend

fun handle :: "route \<Rightarrow> env \<Rightarrow> request_body \<Rightarrow> otp_store \<Rightarrow> response \<times> otp_store" where
  "handle Sms_Send = sms_send_otp"
| "handle Sms_Verify = sms_verify_otp"
| "handle Sms_Resend = sms_resend_otp"
| "handle Whatsapp_Send = whatsapp_send_otp"
| "handle Whatsapp_Verify = whatsapp_verify_otp"
| "handle Whatsapp_Resend = whatsapp_resend_otp"
| "handle Meta_Send = meta_send_otp"
| "handle Meta_Verify = meta_verify_otp"
| "handle Meta_Resend = meta_resend_otp"

text \<open>
  An environment for the examples: \<^verbatim>\<open>Math.random()\<close> returns one half, the clock reads
  1000 twice, and no provider can be reached.
\<close>

definition unreachable_env :: env where
  "unreachable_env =
     \<lparr>random = 1 / 2, clock1 = 1000, clock2 = 1000,
      sms_send_api = (\<lambda>phone. NoResponse),
      sms_verify_api = (\<lambda>phone code. NoResponse),
      whatsapp_api = (\<lambda>receiver code. NoResponse),
      meta_api = (\<lambda>phone code. NoResponse)\<rparr>"

section \<open>Verification of a stored code\<close>

lemma map_of_delete_same: "map_of (AList.delete k al) k = None"
  by (simp add: delete_conv')

text \<open>
  C1. \<open>verifyStoredOTP\<close> decides by strict priority. With no record for the phone the result
  is the no-pending-OTP result and the store is unchanged. With a record whose \<open>expiresAt\<close>
  the clock has passed, the result is the expired result and the record is deleted. With a
  live record whose code differs from the one supplied, the result is the mismatch result,
  the store is unchanged, and a later call with the stored code at any time up to
  \<open>expiresAt\<close> is valid. Otherwise the result is valid and the record is deleted. The four
  cases exclude each other and cover every input.
\<close>

theorem verifyStoredOTP_priority:
  "(map_of store P = None \<longrightarrow>
      verifyStoredOTP now P C store = (NotFound, store))
   \<and> (\<forall>r. map_of store P = Some r \<and> now > expiresAt r \<longrightarrow>
      verifyStoredOTP now P C store = (Expired, AList.delete P store)
      \<and> map_of (snd (verifyStoredOTP now P C store)) P = None)
   \<and> (\<forall>r. map_of store P = Some r \<and> \<not> now > expiresAt r \<and> otp r \<noteq> C \<longrightarrow>
      verifyStoredOTP now P C store = (Mismatch, store)
      \<and> (\<forall>later. later \<le> expiresAt r \<longrightarrow>
            fst (verifyStoredOTP later P (otp r) (snd (verifyStoredOTP now P C store)))
              = Verified))
   \<and> (\<forall>r. map_of store P = Some r \<and> \<not> now > expiresAt r \<and> otp r = C \<longrightarrow>
      verifyStoredOTP now P C store = (Verified, AList.delete P store)
      \<and> map_of (snd (verifyStoredOTP now P C store)) P = None)
   \<and> (fst (verifyStoredOTP now P C store) \<in> {NotFound, Expired, Mismatch, Verified})
   \<and> NotFound \<noteq> Expired \<and> NotFound \<noteq> Mismatch \<and> NotFound \<noteq> Verified
   \<and> Expired \<noteq> Mismatch \<and> Expired \<noteq> Verified \<and> Mismatch \<noteq> Verified"
  by (auto simp: verifyStoredOTP_def map_of_delete_same split: option.splits)

theorem verifyStoredOTP_priority_witness:
  "verifyStoredOTP 5 ''7021312529'' ''1234''
      [(''9876543210'', \<lparr>otp = ''1234'', createdAt = 0, expiresAt = 300000\<rparr>)]
     = (NotFound, [(''9876543210'', \<lparr>otp = ''1234'', createdAt = 0, expiresAt = 300000\<rparr>)])
   \<and> verifyStoredOTP 300001 ''9876543210'' ''1234''
      [(''9876543210'', \<lparr>otp = ''1234'', createdAt = 0, expiresAt = 300000\<rparr>)]
     = (Expired, [])
   \<and> verifyStoredOTP 5 ''9876543210'' ''0000''
      [(''9876543210'', \<lparr>otp = ''1234'', createdAt = 0, expiresAt = 300000\<rparr>)]
     = (Mismatch, [(''9876543210'', \<lparr>otp = ''1234'', createdAt = 0, expiresAt = 300000\<rparr>)])
   \<and> fst (verifyStoredOTP 300000 ''9876543210'' ''1234''
        (snd (verifyStoredOTP 5 ''9876543210'' ''0000''
          [(''9876543210'', \<lparr>otp = ''1234'', createdAt = 0, expiresAt = 300000\<rparr>)])))
     = Verified
   \<and> verifyStoredOTP 5 ''9876543210'' ''1234''
      [(''9876543210'', \<lparr>otp = ''1234'', createdAt = 0, expiresAt = 300000\<rparr>)]
     = (Verified, [])"
  using
    verifyStoredOTP_priority [of
      "[(''9876543210'', \<lparr>otp = ''1234'', createdAt = 0, expiresAt = 300000\<rparr>)]"
      "''7021312529''" 5 "''1234''"]
    verifyStoredOTP_priority [of
      "[(''9876543210'', \<lparr>otp = ''1234'', createdAt = 0, expiresAt = 300000\<rparr>)]"
      "''9876543210''" 300001 "''1234''"]
    verifyStoredOTP_priority [of
      "[(''9876543210'', \<lparr>otp = ''1234'', createdAt = 0, expiresAt = 300000\<rparr>)]"
      "''9876543210''" 5 "''0000''"]
    verifyStoredOTP_priority [of
      "[(''9876543210'', \<lparr>otp = ''1234'', createdAt = 0, expiresAt = 300000\<rparr>)]"
      "''9876543210''" 5 "''1234''"]
    verifyStoredOTP_priority [of
      "[(''9876543210'', \<lparr>otp = ''1234'', createdAt = 0, expiresAt = 300000\<rparr>)]"
      "''9876543210''" 300000 "''1234''"]
  by simp

section \<open>Storing, then verifying\<close>

lemma map_of_storeOTP:
  "map_of (storeOTP now1 now2 P C store) P
     = Some \<lparr>otp = C, createdAt = now1, expiresAt = now2 + 300000\<rparr>"
  by (simp add: storeOTP_def OTP_EXPIRY_MINUTES_def update_conv')

lemma delete_storeOTP:
  "AList.delete P (storeOTP now1 now2 P C store) = AList.delete P store"
  by (simp add: storeOTP_def delete_update_same)

lemma verify_after_store_live:
  "now \<le> now2 + 300000 \<Longrightarrow>
     verifyStoredOTP now P C (storeOTP now1 now2 P C store)
       = (Verified, AList.delete P store)"
  by (simp add: verifyStoredOTP_def map_of_storeOTP delete_storeOTP)

lemma verify_after_store_expired:
  "now > now2 + 300000 \<Longrightarrow>
     verifyStoredOTP now P C' (storeOTP now1 now2 P C store)
       = (Expired, AList.delete P store)"
  by (simp add: verifyStoredOTP_def map_of_storeOTP delete_storeOTP)

lemma verify_absent:
  "map_of store P = None \<Longrightarrow> verifyStoredOTP now P C store = (NotFound, store)"
  by (simp add: verifyStoredOTP_def)

text \<open>
  C2. After \<open>storeOTP\<close> for phone \<open>P\<close> and code \<open>C\<close>, a verify of \<open>C\<close> that comes before the
  record expires (in particular at once) is valid and removes the record; every verify
  after it, with any code and at any time, finds no record. So one stored record lets one
  verify succeed.
\<close>

theorem store_verify_single_use:
  assumes "now \<le> now2 + 5 * 60 * 1000"
  shows "fst (verifyStoredOTP now P C (storeOTP now1 now2 P C store)) = Verified
     \<and> map_of (snd (verifyStoredOTP now P C (storeOTP now1 now2 P C store))) P = None
     \<and> fst (verifyStoredOTP now' P C'
              (snd (verifyStoredOTP now P C (storeOTP now1 now2 P C store)))) = NotFound"
proof -
  have live: "now \<le> now2 + 300000"
    using assms by simp
  have first: "verifyStoredOTP now P C (storeOTP now1 now2 P C store)
      = (Verified, AList.delete P store)"
    by (rule verify_after_store_live [OF live])
  have gone: "map_of (AList.delete P store) P = None"
    by (rule map_of_delete_same)
  show ?thesis
    by (simp add: first gone verify_absent)
qed

theorem store_verify_single_use_witness:
  "(1000 :: int) \<le> 1000 + 5 * 60 * 1000
   \<and> fst (verifyStoredOTP 1000 ''9876543210'' ''4821''
        (storeOTP 1000 1000 ''9876543210'' ''4821'' [])) = Verified
   \<and> map_of (snd (verifyStoredOTP 1000 ''9876543210'' ''4821''
        (storeOTP 1000 1000 ''9876543210'' ''4821'' []))) ''9876543210'' = None
   \<and> fst (verifyStoredOTP 1000 ''9876543210'' ''4821''
        (snd (verifyStoredOTP 1000 ''9876543210'' ''4821''
          (storeOTP 1000 1000 ''9876543210'' ''4821'' [])))) = NotFound"
  using store_verify_single_use
    [of 1000 1000 "''9876543210''" "''4821''" 1000 "[]" 1000 "''4821''"]
  by simp

text \<open>
  C3, as the specification states it, fails at the boundary: the test in the source is
  \<^verbatim>\<open>Date.now() > stored.expiresAt\<close>, so a verify at exactly five minutes after the store
  is not expired. Stored at time 0, the code is still accepted at time 300000.
\<close>

theorem expiry_boundary_counterexample:
  "fst (verifyStoredOTP (0 + 5 * 60 * 1000) ''9876543210'' ''4821''
         (storeOTP 0 0 ''9876543210'' ''4821'' [])) = Verified
   \<and> fst (verifyStoredOTP (0 + 5 * 60 * 1000) ''9876543210'' ''4821''
         (storeOTP 0 0 ''9876543210'' ''4821'' [])) \<noteq> Expired"
  by (simp add: verify_after_store_live)

text \<open>
  C3, amended. If \<open>storeOTP\<close> stamps \<open>expiresAt\<close> from the clock reading \<open>T\<close>, a verify at
  any time strictly later than \<open>T\<close> plus five minutes returns the expired result, whatever
  code is supplied, and removes the record, so that the next verify finds no record. At
  exactly \<open>T\<close> plus five minutes the stored code is still accepted.
\<close>

theorem store_verify_expired:
  assumes "now > T + 5 * 60 * 1000"
  shows "fst (verifyStoredOTP now P C' (storeOTP T0 T P C store)) = Expired
     \<and> map_of (snd (verifyStoredOTP now P C' (storeOTP T0 T P C store))) P = None
     \<and> fst (verifyStoredOTP now' P C''
              (snd (verifyStoredOTP now P C' (storeOTP T0 T P C store)))) = NotFound
     \<and> fst (verifyStoredOTP (T + 5 * 60 * 1000) P C (storeOTP T0 T P C store)) = Verified"
proof -
  have late: "now > T + 300000"
    using assms by simp
  have first: "verifyStoredOTP now P C' (storeOTP T0 T P C store)
      = (Expired, AList.delete P store)"
    by (rule verify_after_store_expired [OF late])
  have gone: "map_of (AList.delete P store) P = None"
    by (rule map_of_delete_same)
  have edge: "verifyStoredOTP (T + 5 * 60 * 1000) P C (storeOTP T0 T P C store)
      = (Verified, AList.delete P store)"
    by (rule verify_after_store_live) simp
  show ?thesis
    using edge by (simp add: first gone verify_absent)
qed

theorem store_verify_expired_witness:
  "(300001 :: int) > 0 + 5 * 60 * 1000
   \<and> fst (verifyStoredOTP 300001 ''9876543210'' ''4821''
        (storeOTP 0 0 ''9876543210'' ''4821'' [])) = Expired
   \<and> map_of (snd (verifyStoredOTP 300001 ''9876543210'' ''4821''
        (storeOTP 0 0 ''9876543210'' ''4821'' []))) ''9876543210'' = None
   \<and> fst (verifyStoredOTP 300002 ''9876543210'' ''4821''
        (snd (verifyStoredOTP 300001 ''9876543210'' ''4821''
          (storeOTP 0 0 ''9876543210'' ''4821'' [])))) = NotFound"
  using store_verify_expired
    [of 0 300001 "''9876543210''" "''4821''" 0 "''4821''" "[]" 300002 "''4821''"]
  by simp

section \<open>The periodic sweep\<close>

lemma expired_keys_Nil: "expired_keys now [] = {}"
  by (simp add: expired_keys_def)

lemma expired_keys_Cons:
  "expired_keys now ((phone, data) # entries)
     = (if now > expiresAt data then insert phone (expired_keys now entries)
        else expired_keys now entries)"
  by (auto simp: expired_keys_def)

lemma sweep_loop_filter:
  "sweep_loop now entries store
     = filter (\<lambda>(phone, data). phone \<notin> expired_keys now entries) store"
proof (induction entries arbitrary: store)
  case Nil
  show ?case by (simp add: expired_keys_Nil)
next
  case (Cons e entries)
  obtain phone data where e: "e = (phone, data)" by (cases e)
  show ?case
  proof (cases "now > expiresAt data")
    case True
    have "sweep_loop now (e # entries) store
        = filter (\<lambda>(p, d). p \<notin> expired_keys now entries) (AList.delete phone store)"
      using True by (simp add: e Cons.IH)
    also have "\<dots> = filter (\<lambda>(p, d). p \<notin> expired_keys now (e # entries)) store"
      using True unfolding e expired_keys_Cons AList.delete_eq
      by (auto simp: case_prod_unfold intro: filter_cong)
    finally show ?thesis .
  next
    case False
    then show ?thesis
      by (simp add: e Cons.IH expired_keys_Cons)
  qed
qed

lemma sweep_keeps_live:
  assumes "distinct (map fst store)"
  shows "sweep now store = filter (\<lambda>(phone, data). \<not> now > expiresAt data) store"
proof -
  have same: "(phone \<notin> expired_keys now store) = (\<not> now > expiresAt data)"
    if "(phone, data) \<in> set store" for phone data
  proof -
    have "data' = data" if "(phone, data') \<in> set store" for data'
      using assms that \<open>(phone, data) \<in> set store\<close> by (rule eq_key_imp_eq_value)
    then show ?thesis
      using that unfolding expired_keys_def by blast
  qed
  have "filter (\<lambda>(phone, data). phone \<notin> expired_keys now store) store
      = filter (\<lambda>(phone, data). \<not> now > expiresAt data) store"
    by (rule filter_cong [OF refl]) (use same in \<open>simp add: case_prod_unfold\<close>)
  then show ?thesis
    by (simp add: sweep_def sweep_loop_filter)
qed

lemma expired_keys_sweep: "expired_keys now (sweep now store) = {}"
  unfolding expired_keys_def sweep_def sweep_loop_filter
  by (auto simp: expired_keys_def)

lemma sweep_idem: "sweep now (sweep now store) = sweep now store"
  by (simp add: sweep_def [of now "sweep now store"] sweep_loop_filter expired_keys_sweep)

lemma distinct_sweep: "distinct (map fst store) \<Longrightarrow> distinct (map fst (sweep now store))"
  by (simp add: sweep_def sweep_loop_filter distinct_map_filter)

lemma sweep_after_delete_expired:
  assumes d: "distinct (map fst store)" and r: "map_of store P = Some r" and e: "now > expiresAt r"
  shows "sweep now (AList.delete P store) = sweep now store"
proof -
  have dd: "distinct (map fst (AList.delete P store))"
    using d by (rule distinct_delete)
  have live: "(p \<noteq> P \<and> \<not> now > expiresAt data) = (\<not> now > expiresAt data)"
    if "(p, data) \<in> set store" for p data
  proof (cases "p = P")
    case True
    then have "map_of store P = Some data"
      using d that by simp
    then show ?thesis
      using r e by simp
  next
    case False
    then show ?thesis by simp
  qed
  have "filter (\<lambda>(p, data). \<not> now > expiresAt data) (AList.delete P store)
      = filter (\<lambda>(p, data). p \<noteq> P \<and> \<not> now > expiresAt data) store"
    unfolding AList.delete_eq filter_filter
    by (rule filter_cong [OF refl]) auto
  also have "\<dots> = filter (\<lambda>(p, data). \<not> now > expiresAt data) store"
    by (rule filter_cong [OF refl]) (use live in \<open>simp add: case_prod_unfold\<close>)
  finally show ?thesis
    by (simp add: sweep_keeps_live [OF d] sweep_keeps_live [OF dd])
qed

lemma map_of_sweep_expired:
  assumes d: "distinct (map fst store)" and r: "map_of store P = Some r" and e: "now > expiresAt r"
  shows "map_of (sweep now store) P = None"
proof -
  have "P \<notin> fst ` set (filter (\<lambda>(p, data). \<not> now > expiresAt data) store)"
  proof
    assume "P \<in> fst ` set (filter (\<lambda>(p, data). \<not> now > expiresAt data) store)"
    then obtain data where "(P, data) \<in> set store" and "\<not> now > expiresAt data"
      by auto
    then have "map_of store P = Some data"
      using d by simp
    then show False
      using r e \<open>\<not> now > expiresAt data\<close> by simp
  qed
  then show ?thesis
    by (simp add: sweep_keeps_live [OF d] map_of_eq_None_iff)
qed

text \<open>
  C7. On a store with one entry per phone (every store that the operations build from the
  empty one, see \<open>distinct_run_ops\<close> in the next section), a run of the sweep at time \<open>now\<close> keeps exactly
  the entries with \<open>now \<le> expiresAt\<close>, unchanged and in their order, and deletes the others;
  a second run at the same instant changes nothing. If a verify at a time \<open>t \<le> now\<close> found
  the record of \<open>P\<close> expired and deleted it, deleting it again changes nothing, the sweep of
  the store the verify left is the sweep of the store before it, and a verify after the
  sweep finds no record and leaves the store as it is.
\<close>

theorem sweep_exact_idempotent:
  assumes "distinct (map fst store)"
  shows "sweep now store = filter (\<lambda>(phone, data). \<not> now > expiresAt data) store
    \<and> sweep now (sweep now store) = sweep now store
    \<and> (map_of store P = Some r \<and> t > expiresAt r \<and> t \<le> now \<longrightarrow>
          snd (verifyStoredOTP t P C store) = AList.delete P store
          \<and> AList.delete P (AList.delete P store) = AList.delete P store
          \<and> sweep now (snd (verifyStoredOTP t P C store)) = sweep now store
          \<and> verifyStoredOTP t P C (sweep now store) = (NotFound, sweep now store))"
proof (intro conjI impI)
  show "sweep now store = filter (\<lambda>(phone, data). \<not> now > expiresAt data) store"
    by (rule sweep_keeps_live [OF assms])
  show "sweep now (sweep now store) = sweep now store"
    by (rule sweep_idem)
next
  assume h: "map_of store P = Some r \<and> t > expiresAt r \<and> t \<le> now"
  then have r: "map_of store P = Some r" and e: "now > expiresAt r" and t: "t > expiresAt r"
    by auto
  show lazy: "snd (verifyStoredOTP t P C store) = AList.delete P store"
    using r t by (simp add: verifyStoredOTP_def)
  show "AList.delete P (AList.delete P store) = AList.delete P store"
    by (rule delete_idem)
  show "sweep now (snd (verifyStoredOTP t P C store)) = sweep now store"
    unfolding lazy by (rule sweep_after_delete_expired [OF assms r e])
  show "verifyStoredOTP t P C (sweep now store) = (NotFound, sweep now store)"
    by (rule verify_absent) (rule map_of_sweep_expired [OF assms r e])
qed

theorem sweep_exact_idempotent_witness:
  "distinct (map fst
      [(''9876543210'', \<lparr>otp = ''1234'', createdAt = 0, expiresAt = 300000\<rparr>),
       (''7021312529'', \<lparr>otp = ''5678'', createdAt = 200000, expiresAt = 500000\<rparr>)])
   \<and> sweep 400000
      [(''9876543210'', \<lparr>otp = ''1234'', createdAt = 0, expiresAt = 300000\<rparr>),
       (''7021312529'', \<lparr>otp = ''5678'', createdAt = 200000, expiresAt = 500000\<rparr>)]
     = [(''7021312529'', \<lparr>otp = ''5678'', createdAt = 200000, expiresAt = 500000\<rparr>)]
   \<and> sweep 400000 (sweep 400000
      [(''9876543210'', \<lparr>otp = ''1234'', createdAt = 0, expiresAt = 300000\<rparr>),
       (''7021312529'', \<lparr>otp = ''5678'', createdAt = 200000, expiresAt = 500000\<rparr>)])
     = [(''7021312529'', \<lparr>otp = ''5678'', createdAt = 200000, expiresAt = 500000\<rparr>)]
   \<and> sweep 400000 (snd (verifyStoredOTP 350000 ''9876543210'' ''1234''
      [(''9876543210'', \<lparr>otp = ''1234'', createdAt = 0, expiresAt = 300000\<rparr>),
       (''7021312529'', \<lparr>otp = ''5678'', createdAt = 200000, expiresAt = 500000\<rparr>)]))
     = [(''7021312529'', \<lparr>otp = ''5678'', createdAt = 200000, expiresAt = 500000\<rparr>)]
   \<and> verifyStoredOTP 350000 ''9876543210'' ''1234'' (sweep 400000
      [(''9876543210'', \<lparr>otp = ''1234'', createdAt = 0, expiresAt = 300000\<rparr>),
       (''7021312529'', \<lparr>otp = ''5678'', createdAt = 200000, expiresAt = 500000\<rparr>)])
     = (NotFound,
        [(''7021312529'', \<lparr>otp = ''5678'', createdAt = 200000, expiresAt = 500000\<rparr>)])"
proof -
  have d: "distinct (map fst
      [(''9876543210'', \<lparr>otp = ''1234'', createdAt = 0, expiresAt = 300000\<rparr>),
       (''7021312529'', \<lparr>otp = ''5678'', createdAt = 200000, expiresAt = 500000\<rparr>)])"
    by simp
  note th = sweep_exact_idempotent [OF d, of 400000 "''9876543210''"
        "\<lparr>otp = ''1234'', createdAt = 0, expiresAt = 300000\<rparr>" 350000 "''1234''"]
  have a: "sweep 400000
      [(''9876543210'', \<lparr>otp = ''1234'', createdAt = 0, expiresAt = 300000\<rparr>),
       (''7021312529'', \<lparr>otp = ''5678'', createdAt = 200000, expiresAt = 500000\<rparr>)]
     = [(''7021312529'', \<lparr>otp = ''5678'', createdAt = 200000, expiresAt = 500000\<rparr>)]"
    using th by simp
  show ?thesis
    using th unfolding a by simp
qed

section \<open>The store over sequences of operations\<close>

lemma distinct_storeOTP:
  "distinct (map fst store) \<Longrightarrow> distinct (map fst (storeOTP now1 now2 P C store))"
  by (simp add: storeOTP_def distinct_update)

lemma distinct_verifyStoredOTP:
  "distinct (map fst store) \<Longrightarrow> distinct (map fst (snd (verifyStoredOTP now P C store)))"
  by (simp add: verifyStoredOTP_def distinct_delete split: option.splits)

lemma distinct_apply_op:
  "distinct (map fst store) \<Longrightarrow> distinct (map fst (apply_op op store))"
  by (cases op) (simp_all add: distinct_storeOTP distinct_verifyStoredOTP distinct_sweep distinct_delete)

lemma distinct_run_ops:
  "distinct (map fst store) \<Longrightarrow> distinct (map fst (run_ops ops store))"
  by (induction ops arbitrary: store) (simp_all add: distinct_apply_op)

lemma set_update_subset: "set (AList.update k v al) \<subseteq> insert (k, v) (set al)"
  by (induction al) auto

lemma set_apply_op: "set (apply_op op store) \<subseteq> set store \<union> written op"
proof (cases op)
  case (Store now1 now2 P C)
  then show ?thesis
    using set_update_subset [of P _ store]
    by (simp add: storeOTP_def OTP_EXPIRY_MINUTES_def)
next
  case (Verify now P C)
  then show ?thesis
    by (auto simp: verifyStoredOTP_def AList.delete_eq split: option.splits)
next
  case (Sweep now)
  then show ?thesis
    by (auto simp: sweep_def sweep_loop_filter)
next
  case (Rollback P)
  then show ?thesis
    by (auto simp: AList.delete_eq)
qed

lemma set_run_ops: "set (run_ops ops store) \<subseteq> set store \<union> (\<Union>op \<in> set ops. written op)"
proof (induction ops arbitrary: store)
  case Nil
  show ?case by simp
next
  case (Cons op ops)
  have "set (run_ops (op # ops) store) \<subseteq> set (apply_op op store) \<union> (\<Union>op \<in> set ops. written op)"
    using Cons.IH [of "apply_op op store"] by simp
  then show ?case
    using set_apply_op [of op store] by auto
qed

lemma storeOTP_last_write_wins:
  "storeOTP a b P C (storeOTP a' b' P C' store) = storeOTP a b P C store"
  by (simp add: storeOTP_def)

lemma run_ops_records:
  assumes "(P, r) \<in> set (run_ops ops [])"
  shows "\<exists>now1 now2 C. Store now1 now2 P C \<in> set ops
            \<and> r = \<lparr>otp = C, createdAt = now1, expiresAt = now2 + 5 * 60 * 1000\<rparr>"
proof -
  from assms set_run_ops [of ops "[]"] obtain op where op: "op \<in> set ops" "(P, r) \<in> written op"
    by auto
  show ?thesis
  proof (cases op)
    case (Store now1 now2 P' C)
    then have "P' = P" and "r = \<lparr>otp = C, createdAt = now1, expiresAt = now2 + 5 * 60 * 1000\<rparr>"
      using op(2) by simp_all
    then show ?thesis
      using op(1) Store by blast
  qed (use op(2) in simp_all)
qed

text \<open>
  C6. Every run of the operations from the empty store keeps one entry per phone
  (\<open>distinct_run_ops\<close>), a store for a phone that has an entry replaces the entry whole
  (\<open>storeOTP_last_write_wins\<close>), and every entry is one that a store wrote
  (\<open>run_ops_records\<close>), with \<open>expiresAt\<close> five minutes after the second clock reading of
  that store. The claim's equation between \<open>expiresAt\<close> and \<open>createdAt\<close> holds when the two
  readings of \<open>storeOTP\<close> agree. When the clock ticks between them, here from 1000 to 1001,
  the record written has \<open>expiresAt = 301001\<close>, which is not \<open>createdAt\<close> plus five minutes.
\<close>

theorem storeOTP_clock_tick:
  "storeOTP 1000 1001 ''9876543210'' ''4821'' []
     = [(''9876543210'', \<lparr>otp = ''4821'', createdAt = 1000, expiresAt = 301001\<rparr>)]
   \<and> (301001 :: int) \<noteq> 1000 + 5 * 60 * 1000"
  by (simp add: storeOTP_def OTP_EXPIRY_MINUTES_def)

lemma storeOTP_same_reading:
  "map_of (storeOTP now now P C store) P = Some r \<Longrightarrow> expiresAt r = createdAt r + 5 * 60 * 1000"
  by (auto simp: map_of_storeOTP)

section \<open>The range of a generated code\<close>

lemma rne_le: "q \<le> of_int N \<Longrightarrow> rne q \<le> N"
proof -
  assume q: "q \<le> of_int N"
  show ?thesis
  proof (cases "q = of_int N")
    case True
    then show ?thesis by (simp add: rne_def)
  next
    case False
    then have "q < of_int N" using q by simp
    then have "\<lfloor>q\<rfloor> < N" by (simp add: floor_less_iff)
    then show ?thesis by (auto simp: rne_def Let_def)
  qed
qed

lemma rne_ge: "of_int N \<le> q \<Longrightarrow> N \<le> rne q"
proof -
  assume "of_int N \<le> q"
  then have "N \<le> \<lfloor>q\<rfloor>" by (simp add: le_floor_iff)
  then show ?thesis by (auto simp: rne_def Let_def)
qed

lemma rne_below_half: "q < of_int N - 1 / 2 \<Longrightarrow> rne q \<le> N - 1"
proof -
  assume q: "q < of_int N - 1 / 2"
  then have "q < of_int N" by simp
  then have f: "\<lfloor>q\<rfloor> \<le> N - 1" by (simp add: floor_less_iff)
  show ?thesis
  proof (cases "\<lfloor>q\<rfloor> = N - 1")
    case True
    then have "q - of_int \<lfloor>q\<rfloor> < 1 / 2" using q by simp
    then show ?thesis using True by (simp add: rne_def Let_def)
  next
    case False
    then have "\<lfloor>q\<rfloor> + 1 \<le> N - 1" using f by simp
    then show ?thesis by (auto simp: rne_def Let_def)
  qed
qed

lemma floorlog2_real:
  assumes "0 < n"
  shows "(2::real) ^ (floorlog 2 n - 1) \<le> real n"
    and "real n + 1 \<le> 2 ^ floorlog 2 n"
    and "0 < floorlog 2 n"
proof -
  from floorlog_bounds [OF assms, of 2]
  have lo: "2 ^ (floorlog 2 n - 1) \<le> n" and hi: "n < 2 ^ floorlog 2 n"
    by simp_all
  have "real (2 ^ (floorlog 2 n - 1)) \<le> real n"
    using lo by (rule of_nat_mono)
  then show "(2::real) ^ (floorlog 2 n - 1) \<le> real n"
    by simp
  have "n + 1 \<le> 2 ^ floorlog 2 n"
    using hi by simp
  then have "real (n + 1) \<le> real (2 ^ floorlog 2 n)"
    by (rule of_nat_mono)
  then show "real n + 1 \<le> 2 ^ floorlog 2 n"
    by simp
  have "floorlog 2 n \<noteq> 0"
    using assms by (simp add: floorlog_eq_zero_iff)
  then show "0 < floorlog 2 n"
    by simp
qed

lemma ilog2_lower: assumes "0 < x" shows "2 powi ilog2 x \<le> x"
proof (cases "1 \<le> x")
  case True
  define n where "n = nat \<lfloor>x\<rfloor>"
  have n: "0 < n" using True by (simp add: n_def)
  have nx: "real n \<le> x" using True by (simp add: n_def)
  note fl = floorlog2_real [OF n]
  have "ilog2 x = int (floorlog 2 n - 1)" using True fl(3) by (simp add: ilog2_def n_def)
  then have "2 powi ilog2 x = (2::real) ^ (floorlog 2 n - 1)" by (simp only: power_int_of_nat)
  then show ?thesis using nx fl(1) by linarith
next
  case False
  define c where "c = \<lceil>1 / x\<rceil>"
  define n where "n = nat (c - 1)"
  have y: "1 < 1 / x" using False assms by simp
  then have c2: "2 \<le> c" unfolding c_def by linarith
  have n: "0 < n" using c2 by (simp add: n_def)
  have rn: "real n = of_int c - 1" using c2 by (simp add: n_def)
  note fl = floorlog2_real [OF n]
  have "of_int c \<le> (2::real) ^ floorlog 2 n" using rn fl(2) by linarith
  moreover have "1 / x \<le> of_int c" unfolding c_def by simp
  ultimately have "1 / x \<le> 2 ^ floorlog 2 n" by linarith
  then have "1 \<le> 2 ^ floorlog 2 n * x"
    using assms by (simp add: pos_divide_le_eq)
  then have "1 / 2 ^ floorlog 2 n \<le> x"
    by (simp add: pos_divide_le_eq mult.commute)
  moreover have "ilog2 x = - int (floorlog 2 n)" using False by (simp add: ilog2_def n_def c_def)
  then have "2 powi ilog2 x = 1 / (2::real) ^ floorlog 2 n"
    by (simp only: power_int_minus power_int_of_nat inverse_eq_divide)
  ultimately show ?thesis by simp
qed

lemma ilog2_upper: assumes "0 < x" shows "x < 2 powi (ilog2 x + 1)"
proof (cases "1 \<le> x")
  case True
  define n where "n = nat \<lfloor>x\<rfloor>"
  have n: "0 < n" using True by (simp add: n_def)
  have nx: "x < real n + 1" using True by (simp add: n_def)
  note fl = floorlog2_real [OF n]
  have "ilog2 x + 1 = int (floorlog 2 n)" using True by (simp add: ilog2_def n_def)
  then have "2 powi (ilog2 x + 1) = (2::real) ^ floorlog 2 n" by (simp only: power_int_of_nat)
  then show ?thesis using nx fl(2) by linarith
next
  case False
  define c where "c = \<lceil>1 / x\<rceil>"
  define n where "n = nat (c - 1)"
  have y: "1 < 1 / x" using False assms by simp
  then have c2: "2 \<le> c" unfolding c_def by linarith
  have n: "0 < n" using c2 by (simp add: n_def)
  have rn: "real n = of_int c - 1" using c2 by (simp add: n_def)
  note fl = floorlog2_real [OF n]
  have "real n < 1 / x" unfolding rn c_def by linarith
  then have "(2::real) ^ (floorlog 2 n - 1) < 1 / x" using fl(1) by linarith
  then have "2 ^ (floorlog 2 n - 1) * x < 1"
    using assms by (simp add: pos_less_divide_eq)
  then have lt: "x < 1 / 2 ^ (floorlog 2 n - 1)"
    by (simp add: pos_less_divide_eq mult.commute)
  have "ilog2 x + 1 = - int (floorlog 2 n - 1)" using False fl(3) by (simp add: ilog2_def n_def c_def)
  then have "2 powi (ilog2 x + 1) = 1 / (2::real) ^ (floorlog 2 n - 1)"
    by (simp only: power_int_minus power_int_of_nat inverse_eq_divide)
  then show ?thesis using lt by simp
qed

lemma ilog2_less: assumes "0 < x" "x < 2 powi k" shows "ilog2 x < k"
proof (rule ccontr)
  assume "\<not> ilog2 x < k"
  then have "k \<le> ilog2 x" by simp
  then have "(2::real) powi k \<le> 2 powi ilog2 x" by (simp add: power_int_increasing)
  then show False using ilog2_lower [OF assms(1)] assms(2) by simp
qed

lemma ilog2_ge: assumes "0 < x" "2 powi k \<le> x" shows "k \<le> ilog2 x"
proof (rule ccontr)
  assume "\<not> k \<le> ilog2 x"
  then have "ilog2 x + 1 \<le> k" by simp
  then have "(2::real) powi (ilog2 x + 1) \<le> 2 powi k" by (simp add: power_int_increasing)
  then show False using ilog2_upper [OF assms(1)] assms(2) by simp
qed


lemma ulp_pos: "0 < ulp x"
  by (simp add: ulp_def zero_less_power_int)

lemma dyadic_on_grid:
  assumes "j \<le> k"
  shows "of_int M * 2 powi k = of_int (M * 2 ^ nat (k - j)) * (2::real) powi j"
proof -
  have "(2::real) powi k = 2 powi ((k - j) + j)"
    by simp
  also have "\<dots> = 2 powi (k - j) * 2 powi j"
    by (rule power_int_add) simp
  also have "(2::real) powi (k - j) = 2 ^ nat (k - j)"
    using assms by (simp add: power_int_def)
  finally show ?thesis
    by simp
qed

lemma fl_round_le_grid:
  assumes "0 < x" and "x \<le> of_int M * 2 powi k" and "max (ilog2 x) (- 1022) - 52 \<le> k"
  shows "fl_round x \<le> of_int M * 2 powi k"
proof -
  define j where "j = max (ilog2 x) (- 1022) - 52"
  define N where "N = M * 2 ^ nat (k - j)"
  have u: "ulp x = 2 powi j"
    using assms(1) by (simp add: ulp_def j_def)
  have B: "of_int M * 2 powi k = of_int N * ulp x"
    unfolding u N_def by (rule dyadic_on_grid) (use assms(3) in \<open>simp add: j_def\<close>)
  have "x / ulp x \<le> of_int N"
    using assms(2) ulp_pos [of x] unfolding B by (simp add: pos_divide_le_eq)
  then have "rne (x / ulp x) \<le> N"
    by (rule rne_le)
  then have "of_int (rne (x / ulp x)) * ulp x \<le> of_int N * ulp x"
    using ulp_pos [of x] by simp
  then show ?thesis
    using assms(1) unfolding B by (simp add: fl_round_def)
qed

lemma fl_round_ge_grid:
  assumes "0 < x" and "of_int M * 2 powi k \<le> x" and "max (ilog2 x) (- 1022) - 52 \<le> k"
  shows "of_int M * 2 powi k \<le> fl_round x"
proof -
  define j where "j = max (ilog2 x) (- 1022) - 52"
  define N where "N = M * 2 ^ nat (k - j)"
  have u: "ulp x = 2 powi j"
    using assms(1) by (simp add: ulp_def j_def)
  have B: "of_int M * 2 powi k = of_int N * ulp x"
    unfolding u N_def by (rule dyadic_on_grid) (use assms(3) in \<open>simp add: j_def\<close>)
  have "of_int N \<le> x / ulp x"
    using assms(2) ulp_pos [of x] unfolding B by (simp add: pos_le_divide_eq)
  then have "N \<le> rne (x / ulp x)"
    by (rule rne_ge)
  then have "of_int N * ulp x \<le> of_int (rne (x / ulp x)) * ulp x"
    using ulp_pos [of x] by simp
  then show ?thesis
    using assms(1) unfolding B by (simp add: fl_round_def)
qed

lemma fl_round_nonneg: assumes "0 \<le> x" shows "0 \<le> fl_round x"
proof (cases "x = 0")
  case True
  then show ?thesis by (simp add: fl_round_def)
next
  case False
  then have "0 < x" using assms by simp
  from fl_round_ge_grid [OF this, of 0 "max (ilog2 x) (- 1022) - 52"] assms
  show ?thesis by simp
qed

lemma powi_m39: "(2::real) powi (- 39) = 1 / 2 ^ 39"
  by (simp add: power_int_minus inverse_eq_divide)

lemma powi_m53: "(2::real) powi (- 53) = 1 / 2 ^ 53"
  by (simp add: power_int_minus inverse_eq_divide)

lemma product_bound:
  assumes "0 \<le> p" and "p \<le> 9000 - 9000 / 2 ^ 53"
  shows "0 \<le> fl_round p" and "fl_round p \<le> 9000 - 1 / 2 ^ 39"
proof -
  show "0 \<le> fl_round p"
    using assms(1) by (rule fl_round_nonneg)
  show "fl_round p \<le> 9000 - 1 / 2 ^ 39"
  proof (cases "p = 0")
    case True
    then show ?thesis by (simp add: fl_round_def)
  next
    case False
    then have pos: "0 < p" using assms(1) by simp
    show ?thesis
    proof (cases "p < 8192")
      case True
      then have "p < 2 powi 13" by simp
      then have e: "ilog2 p < 13" by (rule ilog2_less [OF pos])
      have "fl_round p \<le> of_int 1 * 2 powi 13"
        by (rule fl_round_le_grid [OF pos]) (use True e in simp_all)
      then show ?thesis by simp
    next
      case False
      then have "2 powi 13 \<le> p" by simp
      then have lo: "13 \<le> ilog2 p" by (rule ilog2_ge [OF pos])
      have "p < 2 powi 14" using assms(2) by simp
      then have hi: "ilog2 p < 14" by (rule ilog2_less [OF pos])
      have e: "ilog2 p = 13" using lo hi by simp
      have u: "ulp p = 1 / 2 ^ 39"
        using pos by (simp add: ulp_def e powi_m39)
      have "p / ulp p \<le> (9000 - 9000 / 2 ^ 53) * 2 ^ 39"
        using assms(2) unfolding u by simp
      also have "\<dots> < of_int (9000 * 2 ^ 39) - 1 / 2"
        by simp
      finally have "rne (p / ulp p) \<le> 9000 * 2 ^ 39 - 1"
        by (rule rne_below_half)
      then have "of_int (rne (p / ulp p)) \<le> (of_int (9000 * 2 ^ 39 - 1) :: real)"
        by (simp only: of_int_le_iff)
      then have "of_int (rne (p / ulp p)) * ulp p \<le> of_int (9000 * 2 ^ 39 - 1) * ulp p"
        using ulp_pos [of p] by (simp only: mult_le_cancel_right_pos)
      moreover have "fl_round p = of_int (rne (p / ulp p)) * ulp p"
        using pos by (simp add: fl_round_def)
      moreover have "of_int (9000 * 2 ^ 39 - 1) * ulp p = 9000 - 1 / 2 ^ 39"
        unfolding u by simp
      ultimately show ?thesis
        by (simp only:)
    qed
  qed
qed

lemma sum_bound:
  assumes "1000 \<le> s" and "s \<le> 10000 - 1 / 2 ^ 39"
  shows "1000 \<le> fl_round s" and "fl_round s \<le> 10000 - 1 / 2 ^ 39"
proof -
  have pos: "0 < s" using assms(1) by simp
  have "s < 2 powi 14" using assms(2) by simp
  then have e: "ilog2 s < 14" by (rule ilog2_less [OF pos])
  have "of_int 1000 * 2 powi 0 \<le> fl_round s"
    by (rule fl_round_ge_grid [OF pos]) (use assms(1) e in simp_all)
  then show "1000 \<le> fl_round s" by simp
  have "fl_round s \<le> of_int (10000 * 2 ^ 39 - 1) * 2 powi (- 39)"
    by (rule fl_round_le_grid [OF pos]) (use assms(2) e in \<open>simp_all add: powi_m39\<close>)
  then show "fl_round s \<le> 10000 - 1 / 2 ^ 39"
    by (simp add: powi_m39)
qed


lemma double_below_one:
  assumes "is_double r" and "0 \<le> r" and "r < 1"
  shows "r \<le> 1 - 1 / 2 ^ 53"
proof (cases "r = 0")
  case True
  then show ?thesis by simp
next
  case False
  then have pos: "0 < r" using assms(2) by simp
  have "r < 2 powi 0" using assms(3) by simp
  then have e: "ilog2 r < 0" by (rule ilog2_less [OF pos])
  show ?thesis
  proof (cases "ilog2 r = - 1")
    case True
    have u: "ulp r = 1 / 2 ^ 53"
      using pos by (simp add: ulp_def True powi_m53)
    define K where "K = rne (r / ulp r)"
    have r: "r = of_int K / 2 ^ 53"
      using assms(1) pos unfolding is_double_def fl_round_def K_def u by simp
    then have "real_of_int K < 2 ^ 53"
      using assms(3) by simp
    then have "real_of_int K < real_of_int (2 ^ 53)"
      by simp
    then have "K < 2 ^ 53"
      by (simp only: of_int_less_iff)
    then have "K \<le> 2 ^ 53 - 1"
      by simp
    then have "real_of_int K \<le> real_of_int (2 ^ 53 - 1)"
      by (simp only: of_int_le_iff)
    then show ?thesis
      unfolding r by simp
  next
    case False
    then have "ilog2 r + 1 \<le> - 1" using e by simp
    then have "(2::real) powi (ilog2 r + 1) \<le> 2 powi (- 1)"
      by (rule power_int_increasing) simp
    also have "(2::real) powi (- 1) = 1 / 2"
      by (simp add: power_int_minus inverse_eq_divide)
    finally have "r < 1 / 2"
      using ilog2_upper [OF pos] by simp
    then show ?thesis by simp
  qed
qed

lemma random_to_range:
  assumes "is_double r" and "0 \<le> r" and "r < 1"
  shows "1000 \<le> \<lfloor>fl_round (1000 + fl_round (r * 9000))\<rfloor>"
    and "\<lfloor>fl_round (1000 + fl_round (r * 9000))\<rfloor> \<le> 9999"
proof -
  have r: "r \<le> 1 - 1 / 2 ^ 53"
    by (rule double_below_one [OF assms])
  have p0: "0 \<le> r * 9000" using assms(2) by simp
  have p1: "r * 9000 \<le> 9000 - 9000 / 2 ^ 53" using r by simp
  note p = product_bound [OF p0 p1]
  have s0: "1000 \<le> 1000 + fl_round (r * 9000)" using p(1) by simp
  have s1: "1000 + fl_round (r * 9000) \<le> 10000 - 1 / 2 ^ 39" using p(2) by simp
  note s = sum_bound [OF s0 s1]
  show "1000 \<le> \<lfloor>fl_round (1000 + fl_round (r * 9000))\<rfloor>"
    using s(1) by (simp add: le_floor_iff)
  have "fl_round (1000 + fl_round (r * 9000)) < 10000"
    using s(2) by simp
  then have "\<lfloor>fl_round (1000 + fl_round (r * 9000))\<rfloor> < 10000"
    by (simp add: floor_less_iff)
  then show "\<lfloor>fl_round (1000 + fl_round (r * 9000))\<rfloor> \<le> 9999"
    by simp
qed

lemma digits_four:
  assumes "1000 \<le> n" and "n \<le> 9999"
  shows "digits n = [digit_char (n div 1000), digit_char (n div 100 mod 10),
                     digit_char (n div 10 mod 10), digit_char (n mod 10)]"
proof -
  have e1: "n div 10 div 10 = n div 100" and e2: "n div 100 div 10 = n div 1000"
    by (simp_all add: div_mult2_eq [symmetric])
  have a: "digits n = digits (n div 10) @ [digit_char (n mod 10)]"
    using assms by (simp add: digits.simps [of n])
  have "\<not> n div 10 < 10"
    using assms by simp
  then have b: "digits (n div 10) = digits (n div 100) @ [digit_char (n div 10 mod 10)]"
    by (simp add: digits.simps [of "n div 10"] e1)
  have "\<not> n div 100 < 10"
    using assms by simp
  then have c: "digits (n div 100) = digits (n div 1000) @ [digit_char (n div 100 mod 10)]"
    by (simp add: digits.simps [of "n div 100"] e2)
  have "n div 1000 < 10"
    using assms by simp
  then have d: "digits (n div 1000) = [digit_char (n div 1000)]"
    by (simp add: digits.simps [of "n div 1000"])
  show ?thesis
    by (simp add: a b c d)
qed

lemma digit_cases: "d < 10 \<Longrightarrow> d \<in> {0, 1, 2, 3, 4, 5, 6, 7, 8, 9 :: nat}"
  by auto

lemma digit_char_digit: "d < 10 \<Longrightarrow> digit_char d \<in> set ''0123456789''"
  by (simp add: digit_char_def del: set_simps)

lemma digit_value_digit_char: "d < 10 \<Longrightarrow> digit_value (digit_char d) = d"
  using digit_cases [of d] by (auto simp: digit_value_def digit_char_def)

lemma digit_char_zero: "d < 10 \<Longrightarrow> digit_char d = CHR ''0'' \<longleftrightarrow> d = 0"
  using digit_cases [of d] by (auto simp: digit_char_def)

text \<open>
  C8. For every binary64 value \<open>r\<close> with \<open>0 \<le> r < 1\<close> that \<^verbatim>\<open>Math.random()\<close> can return,
  \<open>generateOTP r\<close> is a string of four characters, all decimal digits, the first not
  \<^verbatim>\<open>0\<close>, and the number it denotes lies between 1000 and 9999.
\<close>

theorem generateOTP_four_digits:
  assumes "is_double r" and "0 \<le> r" and "r < 1"
  shows "length (generateOTP r) = 4
    \<and> set (generateOTP r) \<subseteq> set ''0123456789''
    \<and> hd (generateOTP r) \<noteq> CHR ''0''
    \<and> 1000 \<le> decimal_value (generateOTP r) \<and> decimal_value (generateOTP r) \<le> 9999"
proof -
  define n where "n = nat \<lfloor>fl_round (1000 + fl_round (r * 9000))\<rfloor>"
  note rg = random_to_range [OF assms]
  have n: "1000 \<le> n" "n \<le> 9999"
    using rg unfolding n_def by linarith+
  have g: "generateOTP r = [digit_char (n div 1000), digit_char (n div 100 mod 10),
                     digit_char (n div 10 mod 10), digit_char (n mod 10)]"
    using rg(1) by (simp add: generateOTP_def toString_def n_def [symmetric] digits_four [OF n])
  have d3: "n div 1000 < 10" and d3': "n div 1000 \<noteq> 0"
    using n by simp_all
  have v: "decimal_value (generateOTP r)
      = 1000 * (n div 1000) + 100 * (n div 100 mod 10) + 10 * (n div 10 mod 10) + n mod 10"
    unfolding g using d3 by (simp add: decimal_value_def digit_value_digit_char)
  have s1: "n = 10 * (n div 10) + n mod 10"
    by simp
  have s2: "n div 10 = 10 * (n div 100) + n div 10 mod 10"
    using div_mult_mod_eq [of "n div 10" 10] by (simp add: div_mult2_eq [symmetric])
  have s3: "n div 100 = 10 * (n div 1000) + n div 100 mod 10"
    using div_mult_mod_eq [of "n div 100" 10] by (simp add: div_mult2_eq [symmetric])
  have "1000 * (n div 1000) + 100 * (n div 100 mod 10) + 10 * (n div 10 mod 10) + n mod 10 = n"
    using s1 s2 s3 by linarith
  then have v': "decimal_value (generateOTP r) = n"
    using v by simp
  have "length (generateOTP r) = 4"
    by (simp add: g)
  moreover have "set (generateOTP r) \<subseteq> set ''0123456789''"
    using digit_char_digit [OF d3] digit_char_digit [of "n div 100 mod 10"]
      digit_char_digit [of "n div 10 mod 10"] digit_char_digit [of "n mod 10"]
    unfolding g by simp
  moreover have "hd (generateOTP r) \<noteq> CHR ''0''"
    unfolding g using d3 d3' by (simp add: digit_char_zero)
  ultimately show ?thesis
    using n v' by simp
qed

lemmas float_eval =
  generateOTP_def toString_def fl_round_def ulp_def ilog2_def compute_floorlog rne_def Let_def
  power_int_minus inverse_eq_divide digits.simps digit_char_def

lemma generateOTP_half: "generateOTP (1 / 2) = ''5500''"
  by (simp add: float_eval)

lemma half_is_double: "is_double (1 / 2)"
  by (simp add: is_double_def float_eval)

theorem generateOTP_four_digits_witness:
  "is_double (1 / 2) \<and> (0 :: real) \<le> 1 / 2 \<and> (1 / 2 :: real) < 1
   \<and> length (generateOTP (1 / 2)) = 4
   \<and> set (generateOTP (1 / 2)) \<subseteq> set ''0123456789''
   \<and> hd (generateOTP (1 / 2)) \<noteq> CHR ''0''
   \<and> 1000 \<le> decimal_value (generateOTP (1 / 2))
   \<and> decimal_value (generateOTP (1 / 2)) \<le> 9999"
  using generateOTP_four_digits [OF half_is_double] half_is_double
  by simp

section \<open>Sending and resending through WhatsApp\<close>

lemmas phone_eval =
  formatPhoneNumber_def validatePhoneNumber_def clean_number_def is_space_def is_digit_def
  otpRegex_def otpRegex4_def truthy_def or_else_def

lemma format_example: "formatPhoneNumber ''9876543210'' = ''9876543210''"
  by (simp add: phone_eval)

lemma validate_example: "validatePhoneNumber ''9876543210''"
  by (simp add: phone_eval)

lemma or_else_truthy: "truthy v = Some p \<Longrightarrow> or_else v d = p"
  by (simp add: or_else_def)

lemma whatsapp_send_rolls_back:
  assumes "truthy (body_phoneNumber body) = Some p"
    and "validatePhoneNumber (formatPhoneNumber p)"
    and "\<not> res_success (fst (whatsapp_send_otp e body store))"
  shows "map_of (snd (whatsapp_send_otp e body store)) (formatPhoneNumber p) = None"
  using assms
  by (auto simp: whatsapp_send_otp_def Let_def reply_def or_else_truthy map_of_delete_same
      split: axios_result.splits option.splits if_splits)

lemma meta_send_rolls_back:
  assumes "truthy (body_phoneNumber body) = Some p"
    and "validatePhoneNumber (formatPhoneNumber p)"
    and "\<not> res_success (fst (meta_send_otp e body store))"
  shows "map_of (snd (meta_send_otp e body store)) (formatPhoneNumber p) = None"
  using assms
  by (auto simp: meta_send_otp_def Let_def reply_def or_else_truthy map_of_delete_same
      split: axios_result.splits option.splits if_splits)

text \<open>
  C4. The two send handlers take the record back on every failing path
  (\<open>whatsapp_send_rolls_back\<close>, \<open>meta_send_rolls_back\<close>). The resend handlers store a
  record in the same way, and delete it in their \<^verbatim>\<open>else\<close> branch, but their \<^verbatim>\<open>catch\<close>
  block does not: when the request to the provider throws, here with no response, the
  handler answers 500 and the record of the new code stays in the store, where a verify
  with that code succeeds.
\<close>

theorem whatsapp_resend_leaves_record:
  "handle Whatsapp_Resend unreachable_env
      \<lparr>body_phoneNumber = Some ''9876543210'', body_otp = None\<rparr> []
     = (reply 500 False ''Failed to resend WhatsApp OTP.'',
        [(''9876543210'', \<lparr>otp = ''5500'', createdAt = 1000, expiresAt = 301000\<rparr>)])
   \<and> res_success (fst (handle Whatsapp_Verify unreachable_env
        \<lparr>body_phoneNumber = Some ''9876543210'', body_otp = Some ''5500''\<rparr>
        (snd (handle Whatsapp_Resend unreachable_env
           \<lparr>body_phoneNumber = Some ''9876543210'', body_otp = None\<rparr> []))))"
proof -
  have t: "truthy (Some ''9876543210'') = Some ''9876543210''"
    and t': "truthy (Some ''5500'') = Some ''5500''"
    by (simp_all add: truthy_def)
  have r: "whatsapp_resend_otp unreachable_env
      \<lparr>body_phoneNumber = Some ''9876543210'', body_otp = None\<rparr> []
     = (reply 500 False ''Failed to resend WhatsApp OTP.'',
        [(''9876543210'', \<lparr>otp = ''5500'', createdAt = 1000, expiresAt = 301000\<rparr>)])"
    by (simp add: whatsapp_resend_otp_def t format_example validate_example unreachable_env_def
        generateOTP_half storeOTP_def OTP_EXPIRY_MINUTES_def)
  have o: "otpRegex ''5500''"
    by (simp add: phone_eval)
  have v: "res_success (fst (whatsapp_verify_otp unreachable_env
        \<lparr>body_phoneNumber = Some ''9876543210'', body_otp = Some ''5500''\<rparr>
        [(''9876543210'', \<lparr>otp = ''5500'', createdAt = 1000, expiresAt = 301000\<rparr>)]))"
    by (simp add: whatsapp_verify_otp_def t t' format_example o unreachable_env_def
        verifyStoredOTP_def stored_verify_reply_def reply_verify_def)
  show ?thesis
    using v by (simp add: r)
qed

lemma sms_verify_error_expired:
  assumes "str_includes details ''OTP Expired''"
    and "\<not> str_includes details ''OTP Mismatch''"
    and "\<not> str_includes details ''OTP not matched''"
  shows "sms_verify_reply fp (HttpError st (Some \<lparr>Status = s, Details = Some details\<rparr>))
     = reply_verify 400 False ''OTP has expired. Please request a new OTP.''"
proof -
  have "details \<noteq> []"
    using assms(1) by (auto simp: str_includes_def)
  then have "or_else (details_of (Some \<lparr>Status = s, Details = Some details\<rparr>)) [] = details"
    by (simp add: or_else_def truthy_def details_of_def)
  then show ?thesis
    using assms by (simp add: sms_verify_reply_def)
qed

text \<open>
  C5. When the provider's error response carries the detail, the \<^verbatim>\<open>catch\<close> block reports
  the expired message (\<open>sms_verify_error_expired\<close>). When the detail arrives in a response
  that does not throw, here with status 200, \<^verbatim>\<open>Status\<close> \<^verbatim>\<open>Success\<close> and \<^verbatim>\<open>Details\<close>
  \<^verbatim>\<open>OTP Expired\<close>, the handler answers with the invalid-OTP message, which is not the
  expired message.
\<close>

theorem sms_verify_expired_in_success_shape:
  "fst (handle Sms_Verify
          (unreachable_env\<lparr>sms_verify_api := \<lambda>phone code.
              Resolved 200 (Some \<lparr>Status = Some ''Success'', Details = Some ''OTP Expired''\<rparr>)\<rparr>)
          \<lparr>body_phoneNumber = Some ''9876543210'', body_otp = Some ''123456''\<rparr> [])
     = reply_verify 400 False ''Invalid OTP. Please check and try again.''
   \<and> str_includes ''OTP Expired'' ''OTP Expired''
   \<and> reply_verify 400 False ''Invalid OTP. Please check and try again.''
       \<noteq> reply_verify 400 False ''OTP has expired. Please request a new OTP.''"
proof -
  have t: "truthy (Some ''9876543210'') = Some ''9876543210''"
    and t': "truthy (Some ''123456'') = Some ''123456''"
    by (simp_all add: truthy_def)
  have o: "otpRegex ''123456''"
    by (simp add: phone_eval)
  show ?thesis
    by (simp add: sms_verify_otp_def t t' o sms_verify_reply_def unreachable_env_def
        str_includes_def reply_verify_def)
qed

section \<open>The two authorities\<close>

text \<open>
  C9. The SMS verify handler answers the same whatever the store holds and leaves the
  store as it was. The WhatsApp and the Meta WhatsApp verify handlers give the same answer
  and the same store whatever the four provider calls would return. So a code in the store
  has no part in an SMS verification, and the provider has no part in a WhatsApp one.
\<close>

theorem verify_authorities_separate:
  "fst (handle Sms_Verify e body store1) = fst (handle Sms_Verify e body store2)
   \<and> snd (handle Sms_Verify e body store) = store
   \<and> handle Whatsapp_Verify
        (e\<lparr>sms_send_api := a, sms_verify_api := b, whatsapp_api := c, meta_api := d\<rparr>)
        body store
      = handle Whatsapp_Verify e body store
   \<and> handle Meta_Verify
        (e\<lparr>sms_send_api := a, sms_verify_api := b, whatsapp_api := c, meta_api := d\<rparr>)
        body store
      = handle Meta_Verify e body store"
  by (simp add: sms_verify_otp_def whatsapp_verify_otp_def meta_verify_otp_def Let_def
      split: option.splits prod.splits)

text \<open>
  Two consequences. A code that is in the store does not make an SMS verification succeed
  when the provider gives no response; a verify through WhatsApp for a phone without a
  record fails whatever the providers would answer.
\<close>

lemma truthy_SomeD: "truthy (Some s) = Some s' \<Longrightarrow> s' = s"
  by (simp add: truthy_def split: if_splits)

lemma stored_code_no_sms_success:
  assumes "sms_verify_api e (formatPhoneNumber p) code = NoResponse"
  shows "\<not> res_success (fst (handle Sms_Verify e
            \<lparr>body_phoneNumber = Some p, body_otp = Some code\<rparr>
            (storeOTP now1 now2 (formatPhoneNumber p) code store)))"
  using assms
  by (auto simp: sms_verify_otp_def sms_verify_reply_def reply_verify_def Let_def
      split: option.splits dest!: truthy_SomeD)

lemma no_record_no_whatsapp_success:
  assumes "map_of store (formatPhoneNumber p) = None"
  shows "\<not> res_success (fst (handle Whatsapp_Verify e
            \<lparr>body_phoneNumber = Some p, body_otp = c\<rparr> store))"
  using assms
  by (auto simp: whatsapp_verify_otp_def stored_verify_reply_def reply_verify_def Let_def
      verify_absent split: option.splits dest!: truthy_SomeD)

section \<open>Verify requests and the phone number\<close>

text \<open>
  C10, as stated for every phone string, fails for the empty one: the handlers test
  \<^verbatim>\<open>!phoneNumber\<close> first, and the empty string is falsy, so the request is answered with
  status 400 and the required-fields message, not with what the lookup would give.
\<close>

theorem verify_empty_phone_counterexample:
  "fst (handle Whatsapp_Verify unreachable_env
          \<lparr>body_phoneNumber = Some [], body_otp = Some ''1234''\<rparr> [])
     = reply_verify 400 False ''Phone number and OTP are required''
   \<and> fst (handle Whatsapp_Verify unreachable_env
          \<lparr>body_phoneNumber = Some [], body_otp = Some ''1234''\<rparr> [])
     \<noteq> stored_verify_reply (formatPhoneNumber [])
          (fst (verifyStoredOTP (clock1 unreachable_env) (formatPhoneNumber []) ''1234'' []))"
  by (simp add: whatsapp_verify_otp_def truthy_def stored_verify_reply_def verifyStoredOTP_def
      reply_verify_def)

lemma truthy_Some_iff: "truthy c = Some code \<longleftrightarrow> c = Some code \<and> code \<noteq> []"
  by (auto simp: truthy_def split: option.splits if_splits)

lemma truthy_phone: "truthy (Some p) = (if p = [] then None else Some p)"
  by (simp add: truthy_def)

lemma verify_missing_field:
  assumes "p = [] \<or> truthy c = None"
  shows "sms_verify_otp e \<lparr>body_phoneNumber = Some p, body_otp = c\<rparr> store
      = (reply_verify 400 False ''Phone number and OTP are required'', store)"
    and "whatsapp_verify_otp e \<lparr>body_phoneNumber = Some p, body_otp = c\<rparr> store
      = (reply_verify 400 False ''Phone number and OTP are required'', store)"
    and "meta_verify_otp e \<lparr>body_phoneNumber = Some p, body_otp = c\<rparr> store
      = (reply_verify 400 False ''Phone number and OTP are required'', store)"
  using assms
  by (auto simp: sms_verify_otp_def whatsapp_verify_otp_def meta_verify_otp_def truthy_phone
      split: option.splits)

lemma verify_present_fields:
  assumes "p \<noteq> []" and "truthy c = Some code"
  shows "sms_verify_otp e \<lparr>body_phoneNumber = Some p, body_otp = c\<rparr> store
      = (if \<not> otpRegex code then
           reply_verify 400 False ''Invalid OTP format. Please enter a valid OTP.''
         else sms_verify_reply (formatPhoneNumber p)
                (sms_verify_api e (formatPhoneNumber p) code),
         store)"
    and "whatsapp_verify_otp e \<lparr>body_phoneNumber = Some p, body_otp = c\<rparr> store
      = (if \<not> otpRegex code then
           (reply_verify 400 False ''Invalid OTP format. Please enter a valid OTP.'', store)
         else
           (stored_verify_reply (formatPhoneNumber p)
              (fst (verifyStoredOTP (clock1 e) (formatPhoneNumber p) code store)),
            snd (verifyStoredOTP (clock1 e) (formatPhoneNumber p) code store)))"
    and "meta_verify_otp e \<lparr>body_phoneNumber = Some p, body_otp = c\<rparr> store
      = (if \<not> otpRegex4 code then
           (reply_verify 400 False ''Invalid OTP format. Please enter a valid 4-digit OTP.'',
            store)
         else
           (stored_verify_reply (formatPhoneNumber p)
              (fst (verifyStoredOTP (clock1 e) (formatPhoneNumber p) code store)),
            snd (verifyStoredOTP (clock1 e) (formatPhoneNumber p) code store)))"
  using assms
  by (simp_all add: sms_verify_otp_def whatsapp_verify_otp_def meta_verify_otp_def truthy_phone
      Let_def split: prod.splits)

lemma stored_verify_reply_message:
  "res_message (stored_verify_reply fp (fst (verifyStoredOTP now fp code store)))
     \<in> {''OTP verified successfully! Logging you in...'',
         ''No OTP was sent to this number. Please request OTP first.'',
         ''OTP has expired. Please request a new OTP.'',
         ''Invalid OTP. Please check and try again.''}"
  by (simp add: stored_verify_reply_def verifyStoredOTP_def reply_verify_def
      split: option.splits)

lemma sms_verify_reply_message:
  "res_message (sms_verify_reply fp result)
     \<in> {''Internal server error. Please try again later.'',
         ''OTP verified successfully! Logging you in...'',
         ''Invalid OTP. Please check and try again.'',
         ''OTP has expired. Please request a new OTP.'',
         ''No OTP was sent to this number. Please request OTP first.'',
         ''OTP verification failed. Please try again.'',
         ''Unable to connect to verification service. Please try again later.''}
   \<or> (\<exists>st data details. result = HttpError st data \<and> truthy (details_of data) = Some details
         \<and> sms_verify_reply fp result = reply_verify st False details)"
proof (cases result)
  case (Resolved st data)
  then show ?thesis
    by (cases data) (simp_all add: sms_verify_reply_def reply_verify_def)
next
  case (HttpError st data)
  show ?thesis
  proof (cases "truthy (details_of data)")
    case None
    then show ?thesis
      unfolding HttpError
      by (simp add: sms_verify_reply_def reply_verify_def or_else_def truthy_def str_includes_def)
  next
    case (Some details)
    have d: "or_else (details_of data) [] = details"
      by (simp add: or_else_def Some)
    have ne: "details \<noteq> []"
      using Some by (simp add: truthy_Some_iff)
    have o: "or_else (Some details) d' = details" for d'
      using ne by (simp add: or_else_def truthy_def)
    show ?thesis
      unfolding HttpError using Some
      by (simp add: sms_verify_reply_def Let_def d o reply_verify_def)
  qed
next
  case NoResponse
  then show ?thesis by (simp add: sms_verify_reply_def reply_verify_def)
next
  case OtherError
  then show ?thesis by (simp add: sms_verify_reply_def reply_verify_def)
qed

lemma send_rejects_invalid_phone:
  assumes "p \<noteq> []" and "\<not> validatePhoneNumber (formatPhoneNumber p)"
  shows "sms_send_otp e \<lparr>body_phoneNumber = Some p, body_otp = x\<rparr> store
      = (reply 400 False
           ''Invalid phone number. Please enter a valid 10-digit Indian mobile number.'', store)"
    and "whatsapp_send_otp e \<lparr>body_phoneNumber = Some p, body_otp = x\<rparr> store
      = (reply 400 False
           ''Invalid phone number. Please enter a valid 10-digit Indian mobile number.'', store)"
    and "meta_send_otp e \<lparr>body_phoneNumber = Some p, body_otp = x\<rparr> store
      = (reply 400 False
           ''Invalid phone number. Please enter a valid 10-digit Indian mobile number.'', store)"
  using assms
  by (simp_all add: sms_send_otp_def whatsapp_send_otp_def meta_send_otp_def truthy_phone)


text \<open>
  C10, amended. For every phone string and every value of the code field, each of the three
  verify handlers answers as follows. If the phone string is empty, or the code is absent
  or empty, the answer is status 400 with the required-fields message and the store is
  unchanged, whatever the store and the providers are: no lookup and no provider call has
  a part in it. Otherwise, if the code fails the digit pattern, the answer is the
  code-format message. Otherwise the handler goes on with the formatted phone, to the
  provider call (SMS) or to the store lookup (WhatsApp, Meta), whether
  \<open>validatePhoneNumber\<close> accepts the phone or not. The message of the WhatsApp and the
  Meta handler is then the code-format message or one of the four messages that follow
  \<open>verifyStoredOTP\<close>, none of them about the phone. The message of the SMS handler is
  one of its own eight messages, none of them about the phone, or else the provider's
  error response carried a \<^verbatim>\<open>Details\<close> text that the handler did not recognise and the
  answer relays that text with the provider's status: a rejection of the phone reaches the
  caller of a verify only as the provider's own words. A send request with a phone that is
  not empty and that \<open>validatePhoneNumber\<close> rejects after formatting is answered with
  the handler's invalid-phone message and leaves the store as it is.
\<close>

theorem verify_never_validates_phone:
  "(p = [] \<or> truthy c = None \<longrightarrow>
      handle Sms_Verify e \<lparr>body_phoneNumber = Some p, body_otp = c\<rparr> store
        = (reply_verify 400 False ''Phone number and OTP are required'', store)
      \<and> handle Whatsapp_Verify e \<lparr>body_phoneNumber = Some p, body_otp = c\<rparr> store
        = (reply_verify 400 False ''Phone number and OTP are required'', store)
      \<and> handle Meta_Verify e \<lparr>body_phoneNumber = Some p, body_otp = c\<rparr> store
        = (reply_verify 400 False ''Phone number and OTP are required'', store))
   \<and> (p \<noteq> [] \<and> truthy c = Some code \<longrightarrow>
      handle Sms_Verify e \<lparr>body_phoneNumber = Some p, body_otp = c\<rparr> store
        = (if \<not> otpRegex code then
             reply_verify 400 False ''Invalid OTP format. Please enter a valid OTP.''
           else sms_verify_reply (formatPhoneNumber p)
                  (sms_verify_api e (formatPhoneNumber p) code),
           store)
      \<and> handle Whatsapp_Verify e \<lparr>body_phoneNumber = Some p, body_otp = c\<rparr> store
        = (if \<not> otpRegex code then
             (reply_verify 400 False ''Invalid OTP format. Please enter a valid OTP.'', store)
           else
             (stored_verify_reply (formatPhoneNumber p)
                (fst (verifyStoredOTP (clock1 e) (formatPhoneNumber p) code store)),
              snd (verifyStoredOTP (clock1 e) (formatPhoneNumber p) code store)))
      \<and> handle Meta_Verify e \<lparr>body_phoneNumber = Some p, body_otp = c\<rparr> store
        = (if \<not> otpRegex4 code then
             (reply_verify 400 False
                ''Invalid OTP format. Please enter a valid 4-digit OTP.'', store)
           else
             (stored_verify_reply (formatPhoneNumber p)
                (fst (verifyStoredOTP (clock1 e) (formatPhoneNumber p) code store)),
              snd (verifyStoredOTP (clock1 e) (formatPhoneNumber p) code store)))
      \<and> res_message (fst (handle Whatsapp_Verify e
            \<lparr>body_phoneNumber = Some p, body_otp = c\<rparr> store))
          \<in> {''Invalid OTP format. Please enter a valid OTP.'',
              ''OTP verified successfully! Logging you in...'',
              ''No OTP was sent to this number. Please request OTP first.'',
              ''OTP has expired. Please request a new OTP.'',
              ''Invalid OTP. Please check and try again.''}
      \<and> res_message (fst (handle Meta_Verify e
            \<lparr>body_phoneNumber = Some p, body_otp = c\<rparr> store))
          \<in> {''Invalid OTP format. Please enter a valid 4-digit OTP.'',
              ''OTP verified successfully! Logging you in...'',
              ''No OTP was sent to this number. Please request OTP first.'',
              ''OTP has expired. Please request a new OTP.'',
              ''Invalid OTP. Please check and try again.''}
      \<and> (res_message (fst (handle Sms_Verify e
              \<lparr>body_phoneNumber = Some p, body_otp = c\<rparr> store))
            \<in> {''Invalid OTP format. Please enter a valid OTP.'',
                ''Internal server error. Please try again later.'',
                ''OTP verified successfully! Logging you in...'',
                ''Invalid OTP. Please check and try again.'',
                ''OTP has expired. Please request a new OTP.'',
                ''No OTP was sent to this number. Please request OTP first.'',
                ''OTP verification failed. Please try again.'',
                ''Unable to connect to verification service. Please try again later.''}
          \<or> (\<exists>st data details.
                sms_verify_api e (formatPhoneNumber p) code = HttpError st data
                \<and> truthy (details_of data) = Some details
                \<and> fst (handle Sms_Verify e
                      \<lparr>body_phoneNumber = Some p, body_otp = c\<rparr> store)
                    = reply_verify st False details)))
   \<and> (p \<noteq> [] \<and> \<not> validatePhoneNumber (formatPhoneNumber p) \<longrightarrow>
      handle Sms_Send e \<lparr>body_phoneNumber = Some p, body_otp = c\<rparr> store
        = (reply 400 False
             ''Invalid phone number. Please enter a valid 10-digit Indian mobile number.'',
           store)
      \<and> handle Whatsapp_Send e \<lparr>body_phoneNumber = Some p, body_otp = c\<rparr> store
        = (reply 400 False
             ''Invalid phone number. Please enter a valid 10-digit Indian mobile number.'',
           store)
      \<and> handle Meta_Send e \<lparr>body_phoneNumber = Some p, body_otp = c\<rparr> store
        = (reply 400 False
             ''Invalid phone number. Please enter a valid 10-digit Indian mobile number.'',
           store))"
proof (intro conjI impI)
  assume m: "p = [] \<or> truthy c = None"
  show "handle Sms_Verify e \<lparr>body_phoneNumber = Some p, body_otp = c\<rparr> store
        = (reply_verify 400 False ''Phone number and OTP are required'', store)"
    and "handle Whatsapp_Verify e \<lparr>body_phoneNumber = Some p, body_otp = c\<rparr> store
        = (reply_verify 400 False ''Phone number and OTP are required'', store)"
    and "handle Meta_Verify e \<lparr>body_phoneNumber = Some p, body_otp = c\<rparr> store
        = (reply_verify 400 False ''Phone number and OTP are required'', store)"
    using verify_missing_field [OF m] by simp_all
next
  assume h: "p \<noteq> [] \<and> truthy c = Some code"
  then have p: "p \<noteq> []" and c: "truthy c = Some code"
    by simp_all
  note v = verify_present_fields [OF p c]
  show s: "handle Sms_Verify e \<lparr>body_phoneNumber = Some p, body_otp = c\<rparr> store
        = (if \<not> otpRegex code then
             reply_verify 400 False ''Invalid OTP format. Please enter a valid OTP.''
           else sms_verify_reply (formatPhoneNumber p)
                  (sms_verify_api e (formatPhoneNumber p) code),
           store)"
    using v(1) by simp
  show w: "handle Whatsapp_Verify e \<lparr>body_phoneNumber = Some p, body_otp = c\<rparr> store
        = (if \<not> otpRegex code then
             (reply_verify 400 False ''Invalid OTP format. Please enter a valid OTP.'', store)
           else
             (stored_verify_reply (formatPhoneNumber p)
                (fst (verifyStoredOTP (clock1 e) (formatPhoneNumber p) code store)),
              snd (verifyStoredOTP (clock1 e) (formatPhoneNumber p) code store)))"
    using v(2) by simp
  show m: "handle Meta_Verify e \<lparr>body_phoneNumber = Some p, body_otp = c\<rparr> store
        = (if \<not> otpRegex4 code then
             (reply_verify 400 False
                ''Invalid OTP format. Please enter a valid 4-digit OTP.'', store)
           else
             (stored_verify_reply (formatPhoneNumber p)
                (fst (verifyStoredOTP (clock1 e) (formatPhoneNumber p) code store)),
              snd (verifyStoredOTP (clock1 e) (formatPhoneNumber p) code store)))"
    using v(3) by simp
  show "res_message (fst (handle Whatsapp_Verify e
            \<lparr>body_phoneNumber = Some p, body_otp = c\<rparr> store))
          \<in> {''Invalid OTP format. Please enter a valid OTP.'',
              ''OTP verified successfully! Logging you in...'',
              ''No OTP was sent to this number. Please request OTP first.'',
              ''OTP has expired. Please request a new OTP.'',
              ''Invalid OTP. Please check and try again.''}"
  proof (cases "otpRegex code")
    case True
    then show ?thesis
      unfolding w
      using stored_verify_reply_message [of "formatPhoneNumber p" "clock1 e" code store]
      by simp
  next
    case False
    then show ?thesis
      unfolding w by (simp add: reply_verify_def)
  qed
  show "res_message (fst (handle Meta_Verify e
            \<lparr>body_phoneNumber = Some p, body_otp = c\<rparr> store))
          \<in> {''Invalid OTP format. Please enter a valid 4-digit OTP.'',
              ''OTP verified successfully! Logging you in...'',
              ''No OTP was sent to this number. Please request OTP first.'',
              ''OTP has expired. Please request a new OTP.'',
              ''Invalid OTP. Please check and try again.''}"
  proof (cases "otpRegex4 code")
    case True
    then show ?thesis
      unfolding m
      using stored_verify_reply_message [of "formatPhoneNumber p" "clock1 e" code store]
      by simp
  next
    case False
    then show ?thesis
      unfolding m by (simp add: reply_verify_def)
  qed
  show "res_message (fst (handle Sms_Verify e
              \<lparr>body_phoneNumber = Some p, body_otp = c\<rparr> store))
            \<in> {''Invalid OTP format. Please enter a valid OTP.'',
                ''Internal server error. Please try again later.'',
                ''OTP verified successfully! Logging you in...'',
                ''Invalid OTP. Please check and try again.'',
                ''OTP has expired. Please request a new OTP.'',
                ''No OTP was sent to this number. Please request OTP first.'',
                ''OTP verification failed. Please try again.'',
                ''Unable to connect to verification service. Please try again later.''}
          \<or> (\<exists>st data details.
                sms_verify_api e (formatPhoneNumber p) code = HttpError st data
                \<and> truthy (details_of data) = Some details
                \<and> fst (handle Sms_Verify e
                      \<lparr>body_phoneNumber = Some p, body_otp = c\<rparr> store)
                    = reply_verify st False details)"
  proof (cases "otpRegex code")
    case True
    then show ?thesis
      unfolding s
      using sms_verify_reply_message
        [of "formatPhoneNumber p" "sms_verify_api e (formatPhoneNumber p) code"]
      by auto
  next
    case False
    then show ?thesis
      unfolding s by (simp add: reply_verify_def)
  qed
next
  assume h: "p \<noteq> [] \<and> \<not> validatePhoneNumber (formatPhoneNumber p)"
  then have p: "p \<noteq> []" and n: "\<not> validatePhoneNumber (formatPhoneNumber p)"
    by simp_all
  show "handle Sms_Send e \<lparr>body_phoneNumber = Some p, body_otp = c\<rparr> store
        = (reply 400 False
             ''Invalid phone number. Please enter a valid 10-digit Indian mobile number.'',
           store)"
    and "handle Whatsapp_Send e \<lparr>body_phoneNumber = Some p, body_otp = c\<rparr> store
        = (reply 400 False
             ''Invalid phone number. Please enter a valid 10-digit Indian mobile number.'',
           store)"
    and "handle Meta_Send e \<lparr>body_phoneNumber = Some p, body_otp = c\<rparr> store
        = (reply 400 False
             ''Invalid phone number. Please enter a valid 10-digit Indian mobile number.'',
           store)"
    using send_rejects_invalid_phone [OF p n] by simp_all
qed


theorem verify_never_validates_phone_witness:
  "handle Sms_Verify unreachable_env
      \<lparr>body_phoneNumber = Some [], body_otp = Some ''1234''\<rparr> []
     = (reply_verify 400 False ''Phone number and OTP are required'', [])
   \<and> handle Whatsapp_Verify unreachable_env
      \<lparr>body_phoneNumber = Some [], body_otp = Some ''1234''\<rparr> []
     = (reply_verify 400 False ''Phone number and OTP are required'', [])
   \<and> handle Meta_Verify unreachable_env
      \<lparr>body_phoneNumber = Some [], body_otp = Some ''1234''\<rparr> []
     = (reply_verify 400 False ''Phone number and OTP are required'', [])
   \<and> ''12345'' \<noteq> [] \<and> truthy (Some ''1234'') = Some ''1234''
   \<and> \<not> validatePhoneNumber (formatPhoneNumber ''12345'')
   \<and> handle Whatsapp_Verify unreachable_env
        \<lparr>body_phoneNumber = Some ''12345'', body_otp = Some ''1234''\<rparr> []
      = (reply_verify 400 False ''No OTP was sent to this number. Please request OTP first.'',
         [])
   \<and> handle Meta_Verify unreachable_env
        \<lparr>body_phoneNumber = Some ''12345'', body_otp = Some ''1234''\<rparr> []
      = (reply_verify 400 False ''No OTP was sent to this number. Please request OTP first.'',
         [])
   \<and> handle Sms_Verify unreachable_env
        \<lparr>body_phoneNumber = Some ''12345'', body_otp = Some ''1234''\<rparr> []
      = (reply_verify 503 False
           ''Unable to connect to verification service. Please try again later.'', [])
   \<and> handle Sms_Verify
        (unreachable_env\<lparr>sms_verify_api := \<lambda>phone code.
           HttpError 400
             (Some \<lparr>Status = Some ''Error'', Details = Some ''Invalid Phone Number''\<rparr>)\<rparr>)
        \<lparr>body_phoneNumber = Some ''12345'', body_otp = Some ''1234''\<rparr> []
      = (reply_verify 400 False ''Invalid Phone Number'', [])
   \<and> handle Sms_Send unreachable_env
        \<lparr>body_phoneNumber = Some ''12345'', body_otp = Some ''1234''\<rparr> []
      = (reply 400 False
           ''Invalid phone number. Please enter a valid 10-digit Indian mobile number.'', [])
   \<and> handle Whatsapp_Send unreachable_env
        \<lparr>body_phoneNumber = Some ''12345'', body_otp = Some ''1234''\<rparr> []
      = (reply 400 False
           ''Invalid phone number. Please enter a valid 10-digit Indian mobile number.'', [])
   \<and> handle Meta_Send unreachable_env
        \<lparr>body_phoneNumber = Some ''12345'', body_otp = Some ''1234''\<rparr> []
      = (reply 400 False
           ''Invalid phone number. Please enter a valid 10-digit Indian mobile number.'', [])"
proof -
  have t: "truthy (Some ''1234'') = Some ''1234''"
    by (simp add: truthy_def)
  have f: "formatPhoneNumber ''12345'' = ''12345''"
    by (simp add: phone_eval)
  have nv: "\<not> validatePhoneNumber ''12345''"
    by (simp add: phone_eval)
  have o: "otpRegex ''1234''" "otpRegex4 ''1234''"
    by (simp_all add: phone_eval)
  have relay: "sms_verify_reply ''12345''
      (HttpError 400 (Some \<lparr>Status = Some ''Error'', Details = Some ''Invalid Phone Number''\<rparr>))
     = reply_verify 400 False ''Invalid Phone Number''"
    by (simp add: sms_verify_reply_def details_of_def or_else_def truthy_def str_includes_def
        sublist_Cons_right)
  note empty = verify_never_validates_phone
    [where p = "[]" and c = "Some ''1234''" and e = unreachable_env and store = "[]"]
  note bad = verify_never_validates_phone
    [where p = "''12345''" and c = "Some ''1234''" and code = "''1234''"
       and e = unreachable_env and store = "[]"]
  note relayed = verify_never_validates_phone
    [where p = "''12345''" and c = "Some ''1234''" and code = "''1234''"
       and e = "unreachable_env\<lparr>sms_verify_api := \<lambda>phone code.
           HttpError 400
             (Some \<lparr>Status = Some ''Error'', Details = Some ''Invalid Phone Number''\<rparr>)\<rparr>"
       and store = "[]"]
  have a: "handle Sms_Verify unreachable_env
      \<lparr>body_phoneNumber = Some [], body_otp = Some ''1234''\<rparr> []
     = (reply_verify 400 False ''Phone number and OTP are required'', [])
   \<and> handle Whatsapp_Verify unreachable_env
      \<lparr>body_phoneNumber = Some [], body_otp = Some ''1234''\<rparr> []
     = (reply_verify 400 False ''Phone number and OTP are required'', [])
   \<and> handle Meta_Verify unreachable_env
      \<lparr>body_phoneNumber = Some [], body_otp = Some ''1234''\<rparr> []
     = (reply_verify 400 False ''Phone number and OTP are required'', [])"
    using empty by simp
  have b: "handle Whatsapp_Verify unreachable_env
        \<lparr>body_phoneNumber = Some ''12345'', body_otp = Some ''1234''\<rparr> []
      = (reply_verify 400 False ''No OTP was sent to this number. Please request OTP first.'',
         [])
   \<and> handle Meta_Verify unreachable_env
        \<lparr>body_phoneNumber = Some ''12345'', body_otp = Some ''1234''\<rparr> []
      = (reply_verify 400 False ''No OTP was sent to this number. Please request OTP first.'',
         [])
   \<and> handle Sms_Verify unreachable_env
        \<lparr>body_phoneNumber = Some ''12345'', body_otp = Some ''1234''\<rparr> []
      = (reply_verify 503 False
           ''Unable to connect to verification service. Please try again later.'', [])
   \<and> handle Sms_Send unreachable_env
        \<lparr>body_phoneNumber = Some ''12345'', body_otp = Some ''1234''\<rparr> []
      = (reply 400 False
           ''Invalid phone number. Please enter a valid 10-digit Indian mobile number.'', [])
   \<and> handle Whatsapp_Send unreachable_env
        \<lparr>body_phoneNumber = Some ''12345'', body_otp = Some ''1234''\<rparr> []
      = (reply 400 False
           ''Invalid phone number. Please enter a valid 10-digit Indian mobile number.'', [])
   \<and> handle Meta_Send unreachable_env
        \<lparr>body_phoneNumber = Some ''12345'', body_otp = Some ''1234''\<rparr> []
      = (reply 400 False
           ''Invalid phone number. Please enter a valid 10-digit Indian mobile number.'', [])"
    using bad
    by (simp add: t f nv o verifyStoredOTP_def stored_verify_reply_def sms_verify_reply_def
        unreachable_env_def)
  have c: "handle Sms_Verify
        (unreachable_env\<lparr>sms_verify_api := \<lambda>phone code.
           HttpError 400
             (Some \<lparr>Status = Some ''Error'', Details = Some ''Invalid Phone Number''\<rparr>)\<rparr>)
        \<lparr>body_phoneNumber = Some ''12345'', body_otp = Some ''1234''\<rparr> []
      = (reply_verify 400 False ''Invalid Phone Number'', [])"
    using relayed by (simp add: t f o relay)
  show ?thesis
    using a b c by (simp add: t f nv)
qed

end
